theory Spec2Isabelle
  imports Main
begin

section \<open>Errors\<close>

text \<open>
  The exceptions that can leave a frontend. \<open>GrammarError\<close> is the one the scannerless
  frontends raise themselves; it carries the regexp and the width that its message prints.
  \<open>KeyError\<close> and \<open>AttributeError\<close> are Python's own errors for a dictionary subscript and
  for \<open>getattr\<close>; \<open>AssertionError\<close> is a failed \<open>assert\<close>. An exception raised inside a
  collaborator (lexer, engine, regular-expression library) is identified by its text and
  passes through a frontend unchanged, as \<open>Propagated\<close>.
\<close>

type_synonym exn = string

datatype error =
    GrammarError string "nat \<times> nat"
  | KeyError string
  | AttributeError string
  | AssertionError string
  | Propagated exn

definition propagate :: "exn + 'a \<Rightarrow> error + 'a" where
  "propagate r = (case r of Inl x \<Rightarrow> Inl (Propagated x) | Inr v \<Rightarrow> Inr v)"

text \<open>
  A list comprehension (or a generator consumed by \<open>list\<close>) whose element computation may
  raise: elements are computed left to right and the first exception ends the whole
  comprehension.
\<close>

fun comprehension :: "('a \<Rightarrow> error + 'b) \<Rightarrow> 'a list \<Rightarrow> error + 'b list" where
  "comprehension f [] = Inr []"
| "comprehension f (x # xs) =
     (case f x of
        Inl e \<Rightarrow> Inl e
      | Inr y \<Rightarrow> (case comprehension f xs of Inl e \<Rightarrow> Inl e | Inr ys \<Rightarrow> Inr (y # ys)))"

section \<open>Data model\<close>

text \<open>
  A token definition as the frontends read it: its \<open>name\<close> attribute and the result of its
  \<open>to_regexp()\<close> method.
\<close>

record TokenDef =
  name :: string
  to_regexp :: string

text \<open>
  The post-lex object: \<open>process\<close> rewrites a token stream, \<open>always_accept\<close> lists the token
  kinds the contextual lexer accepts in every state. The type \<open>'s\<close> is the type of token
  stream objects (lazy generators in the source).
\<close>

record 's PostLex =
  process :: "'s \<Rightarrow> 's"
  always_accept :: "string list"

record 's LexerConf =
  tokens :: "TokenDef list"
  ignore :: "string list"
  postlex :: "'s PostLex option"

text \<open>
  A parser configuration: rule triples (name, expansion, action identifier), the callback
  object (its attributes, by name) and the start symbol. The frontends build a second
  configuration whose expansions hold translated symbols, hence the parameter \<open>'sym\<close>.
\<close>

record ('sym, 'fn) ParserConf =
  rules :: "(string \<times> 'sym list \<times> string) list"
  callback :: "string \<rightharpoonup> 'fn"
  start :: string

text \<open>
  The symbol representations the frontends hand to the chart engines: a bare name, or a
  tuple of Python objects. \<open>RePattern r\<close> is \<open>re.compile(r)\<close> and \<open>ReMatch r\<close> is the bound
  method \<open>re.compile(r).match\<close>.
\<close>

datatype pyobj = Str string | NoneObj | RePattern string | ReMatch string

datatype rsym = Name string | Tuple "pyobj list"

text \<open>The dictionaries \<open>{'name': .., 'symbols': .., 'postprocess': ..}\<close> given to nearley.\<close>

record 'fn NearleyRule =
  rule_name :: string
  symbols :: "rsym list"
  postprocess :: 'fn

text \<open>What a chart engine's \<open>parse\<close> is called with: a token list, or the raw text.\<close>

datatype 'tok parse_input = Tokens "'tok list" | Text string

section \<open>Collaborators\<close>

text \<open>
  The lexers, the three parsing engines, \<open>is_terminal\<close> and the regular-expression library
  are imported by the module and are not part of it. They are parameters of the model.
  Whatever may raise returns \<open>exn + _\<close>.

  \<^item> \<open>getwidth r\<close> is \<open>sre_parse.parse(r).getwidth()\<close>, which raises on a malformed
    regexp. \<open>re_compile r\<close> is the call \<open>re.compile(r)\<close>: it raises on a regexp that the
    compiler rejects, also one that \<open>sre_parse.parse\<close> accepts (a look-behind of variable
    width, for one), and otherwise returns the pattern object, which the model writes
    \<open>RePattern r\<close>.
  \<^item> \<open>Lexer\<close>, \<open>ContextualLexer\<close>, \<open>lalr_Parser\<close>, \<open>earley_Parser\<close> and \<open>nearley_Parser\<close> are
    the constructors; \<open>Lexer_lex\<close> and \<open>ContextualLexer_lex\<close> create the token stream of a
    text; \<open>to_list\<close> is \<open>list(stream)\<close>, which runs the stream and so may raise.
  \<^item> \<open>states_idx p\<close> is \<open>p.analysis.states_idx\<close>, a dictionary from state index to a
    dictionary from token kind to parser action.
  \<^item> \<open>lalr_parse\<close>, \<open>earley_parse\<close> and \<open>nearley_parse\<close> are the engines' \<open>parse\<close> on a
    materialised input. Modelled from the spec: an engine's working state is local to one
    call of \<open>parse\<close> (section 3: it must not leak between calls), so \<open>parse\<close> is a function
    of the engine and its input.
  \<^item> \<open>lalr_parse_set_state p stream s\<close> is \<open>p.parse(stream, set_state)\<close> on a lazy stream of
    the contextual lexer, started while the lexer's parser state is \<open>s\<close>. The engine holds
    no reference to the lexer but the setter, so what it does to the lexer is the list of
    states it passes to the setter, returned with the outcome. The section on the engine's
    run with a state setter gives the run that the spec determines.
\<close>

record ('tok, 's, 'tree, 'lexer, 'clexer, 'lalr, 'act, 'earley, 'nearley, 'fn) collab =
  is_terminal :: "string \<Rightarrow> bool"
  getwidth :: "string \<Rightarrow> exn + (nat \<times> nat)"
  re_compile :: "string \<Rightarrow> exn + unit"
  Lexer :: "TokenDef list \<Rightarrow> string list \<Rightarrow> exn + 'lexer"
  Lexer_lex :: "'lexer \<Rightarrow> string \<Rightarrow> 's"
  to_list :: "'s \<Rightarrow> exn + 'tok list"
  ContextualLexer ::
    "TokenDef list \<Rightarrow> (nat \<rightharpoonup> string set) \<Rightarrow> string list \<Rightarrow> string list \<Rightarrow> exn + 'clexer"
  ContextualLexer_lex :: "'clexer \<Rightarrow> string \<Rightarrow> 's"
  lalr_Parser :: "(string, 'fn) ParserConf \<Rightarrow> exn + 'lalr"
  states_idx :: "'lalr \<Rightarrow> (nat \<rightharpoonup> (string \<rightharpoonup> 'act))"
  lalr_parse :: "'lalr \<Rightarrow> 'tok list \<Rightarrow> exn + 'tree"
  lalr_parse_set_state :: "'lalr \<Rightarrow> 's \<Rightarrow> nat option \<Rightarrow> (exn + 'tree) \<times> nat list"
  earley_Parser :: "(rsym, 'fn) ParserConf \<Rightarrow> exn + 'earley"
  earley_parse :: "'earley \<Rightarrow> 'tok parse_input \<Rightarrow> exn + 'tree list"
  nearley_Parser :: "'fn NearleyRule list \<Rightarrow> string \<Rightarrow> exn + 'nearley"
  nearley_parse :: "'nearley \<Rightarrow> 'tok parse_input \<Rightarrow> exn + 'tree list"

section \<open>WithLexer\<close>

text \<open>
  The attributes of a \<open>WithLexer\<close> instance. The classes that inherit from it are record
  extensions, so \<open>WithLexer_lex\<close> applies to each of them.
\<close>

record ('s, 'lexer) WithLexer =
  lexer_conf :: "'s LexerConf"
  lexer :: 'lexer

definition WithLexer_init ::
  "('tok, 's, 'tree, 'lexer, 'clexer, 'lalr, 'act, 'earley, 'nearley, 'fn) collab
    \<Rightarrow> 's LexerConf \<Rightarrow> error + ('s, 'lexer) WithLexer" where
  "WithLexer_init E lexer_conf' =
     (case propagate (Lexer E (tokens lexer_conf') (ignore lexer_conf')) of
        Inl e \<Rightarrow> Inl e
      | Inr lx \<Rightarrow> Inr \<lparr>lexer_conf = lexer_conf', lexer = lx\<rparr>)"

definition WithLexer_lex ::
  "('tok, 's, 'tree, 'lexer, 'clexer, 'lalr, 'act, 'earley, 'nearley, 'fn) collab
    \<Rightarrow> ('s, 'lexer, 'more) WithLexer_scheme \<Rightarrow> string \<Rightarrow> 's" where
  "WithLexer_lex E self text =
     (let stream = Lexer_lex E (lexer self) text
      in case postlex (lexer_conf self) of
           Some pl \<Rightarrow> process pl stream
         | None \<Rightarrow> stream)"

section \<open>LALR\<close>

record ('s, 'lexer, 'fn, 'lalr) LALR = "('s, 'lexer) WithLexer" +
  parser_conf :: "(string, 'fn) ParserConf"
  parser :: 'lalr

definition LALR_init ::
  "('tok, 's, 'tree, 'lexer, 'clexer, 'lalr, 'act, 'earley, 'nearley, 'fn) collab
    \<Rightarrow> 's LexerConf \<Rightarrow> (string, 'fn) ParserConf \<Rightarrow> error + ('s, 'lexer, 'fn, 'lalr) LALR" where
  "LALR_init E lexer_conf' parser_conf' =
     (case WithLexer_init E lexer_conf' of
        Inl e \<Rightarrow> Inl e
      | Inr base \<Rightarrow>
          (case propagate (lalr_Parser E parser_conf') of
             Inl e \<Rightarrow> Inl e
           | Inr p \<Rightarrow> Inr \<lparr>lexer_conf = lexer_conf base, lexer = lexer base,
                            parser_conf = parser_conf', parser = p\<rparr>))"

text \<open>
  Every \<open>parse\<close> returns its outcome together with the instance as the call leaves it.
\<close>

definition LALR_parse ::
  "('tok, 's, 'tree, 'lexer, 'clexer, 'lalr, 'act, 'earley, 'nearley, 'fn) collab
    \<Rightarrow> ('s, 'lexer, 'fn, 'lalr) LALR \<Rightarrow> string
    \<Rightarrow> (error + 'tree) \<times> ('s, 'lexer, 'fn, 'lalr) LALR" where
  "LALR_parse E self text =
     (case propagate (to_list E (WithLexer_lex E self text)) of
        Inl e \<Rightarrow> (Inl e, self)
      | Inr tokens' \<Rightarrow> (propagate (lalr_parse E (parser self) tokens'), self))"

section \<open>LALR\_ContextualLexer\<close>

text \<open>
  The contextual lexer object: what the constructor built from its arguments, and the
  attribute that \<open>set_parser_state\<close> writes. Modelled from the spec: the lexer module is not
  part of this file; section 4.3 and section 6 give the lexer a current parser state that
  a setter establishes. No state has been set on a new lexer.
\<close>

record 'clexer ContextualLexer_obj =
  strategy :: 'clexer
  parser_state :: "nat option"

definition set_parser_state ::
  "nat \<Rightarrow> 'clexer ContextualLexer_obj \<Rightarrow> 'clexer ContextualLexer_obj" where
  "set_parser_state s lx = lx\<lparr>parser_state := Some s\<rparr>"

record ('s, 'clexer, 'fn, 'lalr) LALR_ContextualLexer =
  ctx_lexer_conf :: "'s LexerConf"
  ctx_parser_conf :: "(string, 'fn) ParserConf"
  ctx_parser :: 'lalr
  ctx_lexer :: "'clexer ContextualLexer_obj"

definition LALR_ContextualLexer_init ::
  "('tok, 's, 'tree, 'lexer, 'clexer, 'lalr, 'act, 'earley, 'nearley, 'fn) collab
    \<Rightarrow> 's LexerConf \<Rightarrow> (string, 'fn) ParserConf
    \<Rightarrow> error + ('s, 'clexer, 'fn, 'lalr) LALR_ContextualLexer" where
  "LALR_ContextualLexer_init E lexer_conf' parser_conf' =
     (case propagate (lalr_Parser E parser_conf') of
        Inl e \<Rightarrow> Inl e
      | Inr p \<Rightarrow>
          (let d = (\<lambda>idx. map_option dom (states_idx E p idx))
           in case propagate
                     (ContextualLexer E (tokens lexer_conf') d (ignore lexer_conf')
                        (case postlex lexer_conf' of
                           Some pl \<Rightarrow> always_accept pl
                         | None \<Rightarrow> []))
              of Inl e \<Rightarrow> Inl e
               | Inr lx \<Rightarrow>
                   Inr \<lparr>ctx_lexer_conf = lexer_conf', ctx_parser_conf = parser_conf',
                        ctx_parser = p,
                        ctx_lexer = \<lparr>strategy = lx, parser_state = None\<rparr>\<rparr>))"

definition LALR_ContextualLexer_parse ::
  "('tok, 's, 'tree, 'lexer, 'clexer, 'lalr, 'act, 'earley, 'nearley, 'fn) collab
    \<Rightarrow> ('s, 'clexer, 'fn, 'lalr) LALR_ContextualLexer \<Rightarrow> string
    \<Rightarrow> (error + 'tree) \<times> ('s, 'clexer, 'fn, 'lalr) LALR_ContextualLexer" where
  "LALR_ContextualLexer_parse E self text =
     (let tokens0 = ContextualLexer_lex E (strategy (ctx_lexer self)) text;
          tokens1 = (case postlex (ctx_lexer_conf self) of
                       Some pl \<Rightarrow> process pl tokens0
                     | None \<Rightarrow> tokens0);
          (res, calls) =
             lalr_parse_set_state E (ctx_parser self) tokens1 (parser_state (ctx_lexer self))
      in (propagate res, self\<lparr>ctx_lexer := fold set_parser_state calls (ctx_lexer self)\<rparr>))"

section \<open>Nearley and Earley\<close>

definition getattr :: "(string \<rightharpoonup> 'fn) \<Rightarrow> string \<Rightarrow> error + 'fn" where
  "getattr obj a = (case obj a of None \<Rightarrow> Inl (AttributeError a) | Some f \<Rightarrow> Inr f)"

definition assert_single :: "'tree list \<Rightarrow> error + 'tree" where
  "assert_single res =
     (if length res = 1 then Inr (res ! 0)
      else Inl (AssertionError ''Ambiguious Parse! Not handled yet''))"

record ('s, 'lexer, 'nearley) Nearley = "('s, 'lexer) WithLexer" +
  nearley_parser :: 'nearley

definition Nearley_prepare_expansion ::
  "('tok, 's, 'tree, 'lexer, 'clexer, 'lalr, 'act, 'earley, 'nearley, 'fn) collab
    \<Rightarrow> string list \<Rightarrow> rsym list" where
  "Nearley_prepare_expansion E expansion =
     map (\<lambda>sym. if is_terminal E sym then Tuple [Str sym, NoneObj] else Name sym) expansion"

definition Nearley_init ::
  "('tok, 's, 'tree, 'lexer, 'clexer, 'lalr, 'act, 'earley, 'nearley, 'fn) collab
    \<Rightarrow> 's LexerConf \<Rightarrow> (string, 'fn) ParserConf \<Rightarrow> error + ('s, 'lexer, 'nearley) Nearley" where
  "Nearley_init E lexer_conf' parser_conf' =
     (case WithLexer_init E lexer_conf' of
        Inl e \<Rightarrow> Inl e
      | Inr base \<Rightarrow>
          (case comprehension
                  (\<lambda>(n, x, a).
                      case getattr (callback parser_conf') a of
                        Inl e \<Rightarrow> Inl e
                      | Inr f \<Rightarrow> Inr \<lparr>rule_name = n,
                                       symbols = Nearley_prepare_expansion E x,
                                       postprocess = f\<rparr>)
                  (rules parser_conf')
           of Inl e \<Rightarrow> Inl e
            | Inr rules' \<Rightarrow>
                (case propagate (nearley_Parser E rules' (start parser_conf')) of
                   Inl e \<Rightarrow> Inl e
                 | Inr p \<Rightarrow> Inr \<lparr>lexer_conf = lexer_conf base, lexer = lexer base,
                                  nearley_parser = p\<rparr>)))"

definition Nearley_parse ::
  "('tok, 's, 'tree, 'lexer, 'clexer, 'lalr, 'act, 'earley, 'nearley, 'fn) collab
    \<Rightarrow> ('s, 'lexer, 'nearley) Nearley \<Rightarrow> string
    \<Rightarrow> (error + 'tree) \<times> ('s, 'lexer, 'nearley) Nearley" where
  "Nearley_parse E self text =
     (case propagate (to_list E (WithLexer_lex E self text)) of
        Inl e \<Rightarrow> (Inl e, self)
      | Inr tokens' \<Rightarrow>
          (case propagate (nearley_parse E (nearley_parser self) (Tokens tokens')) of
             Inl e \<Rightarrow> (Inl e, self)
           | Inr res \<Rightarrow> (assert_single res, self)))"

record ('s, 'lexer, 'earley) Earley = "('s, 'lexer) WithLexer" +
  earley_parser :: 'earley

definition Earley_prepare_expansion ::
  "('tok, 's, 'tree, 'lexer, 'clexer, 'lalr, 'act, 'earley, 'nearley, 'fn) collab
    \<Rightarrow> string list \<Rightarrow> rsym list" where
  "Earley_prepare_expansion E expansion =
     map (\<lambda>sym. if is_terminal E sym then Tuple [Str sym] else Name sym) expansion"

definition Earley_init ::
  "('tok, 's, 'tree, 'lexer, 'clexer, 'lalr, 'act, 'earley, 'nearley, 'fn) collab
    \<Rightarrow> 's LexerConf \<Rightarrow> (string, 'fn) ParserConf \<Rightarrow> error + ('s, 'lexer, 'earley) Earley" where
  "Earley_init E lexer_conf' parser_conf' =
     (case WithLexer_init E lexer_conf' of
        Inl e \<Rightarrow> Inl e
      | Inr base \<Rightarrow>
          (let rules' = map (\<lambda>(n, x, a). (n, Earley_prepare_expansion E x, a))
                            (rules parser_conf')
           in case propagate
                     (earley_Parser E \<lparr>rules = rules', callback = callback parser_conf',
                                       start = start parser_conf'\<rparr>)
              of Inl e \<Rightarrow> Inl e
               | Inr p \<Rightarrow> Inr \<lparr>lexer_conf = lexer_conf base, lexer = lexer base,
                                earley_parser = p\<rparr>))"

definition Earley_parse ::
  "('tok, 's, 'tree, 'lexer, 'clexer, 'lalr, 'act, 'earley, 'nearley, 'fn) collab
    \<Rightarrow> ('s, 'lexer, 'earley) Earley \<Rightarrow> string
    \<Rightarrow> (error + 'tree) \<times> ('s, 'lexer, 'earley) Earley" where
  "Earley_parse E self text =
     (case propagate (to_list E (WithLexer_lex E self text)) of
        Inl e \<Rightarrow> (Inl e, self)
      | Inr tokens' \<Rightarrow>
          (case propagate (earley_parse E (earley_parser self) (Tokens tokens')) of
             Inl e \<Rightarrow> (Inl e, self)
           | Inr res \<Rightarrow> (assert_single res, self)))"

section \<open>Nearley\_NoLex and Earley\_NoLex\<close>

text \<open>
  \<open>{t.name: t for t in lexer_conf.tokens}\<close>: a later definition of a name replaces an
  earlier one.
\<close>

definition token_by_name_of :: "TokenDef list \<Rightarrow> (string \<rightharpoonup> TokenDef)" where
  "token_by_name_of ts = fold (\<lambda>t m. m(name t \<mapsto> t)) ts Map.empty"

text \<open>
  The part of \<open>_prepare_expansion\<close> that the two scannerless classes share word for word:
  the lookup of a terminal in \<open>token_by_name\<close>, the width check, and the call
  \<open>re.compile(regexp)\<close> in the \<open>yield\<close> that follows it. It returns the regexp of the
  pattern object so compiled.
\<close>

definition compiled_regexp ::
  "('tok, 's, 'tree, 'lexer, 'clexer, 'lalr, 'act, 'earley, 'nearley, 'fn) collab
    \<Rightarrow> (string \<rightharpoonup> TokenDef) \<Rightarrow> string \<Rightarrow> error + string" where
  "compiled_regexp E token_by_name symb =
     (case token_by_name symb of
        None \<Rightarrow> Inl (KeyError symb)
      | Some t \<Rightarrow>
          (let regexp = to_regexp t
           in case propagate (getwidth E regexp) of
                Inl e \<Rightarrow> Inl e
              | Inr width \<Rightarrow>
                  if \<not> width = (1, 1) then Inl (GrammarError regexp width)
                  else (case propagate (re_compile E regexp) of
                          Inl e \<Rightarrow> Inl e
                        | Inr compiled \<Rightarrow> Inr regexp)))"

record ('nearley) Nearley_NoLex =
  nn_token_by_name :: "string \<rightharpoonup> TokenDef"
  nn_parser :: 'nearley

definition Nearley_NoLex_prepare_expansion ::
  "('tok, 's, 'tree, 'lexer, 'clexer, 'lalr, 'act, 'earley, 'nearley, 'fn) collab
    \<Rightarrow> (string \<rightharpoonup> TokenDef) \<Rightarrow> string list \<Rightarrow> error + rsym list" where
  "Nearley_NoLex_prepare_expansion E token_by_name expansion =
     comprehension
       (\<lambda>sym. if is_terminal E sym then
                 (case compiled_regexp E token_by_name sym of
                    Inl e \<Rightarrow> Inl e
                  | Inr regexp \<Rightarrow> Inr (Tuple [Str sym, RePattern regexp]))
               else Inr (Name sym))
       expansion"

definition Nearley_NoLex_init ::
  "('tok, 's, 'tree, 'lexer, 'clexer, 'lalr, 'act, 'earley, 'nearley, 'fn) collab
    \<Rightarrow> 's LexerConf \<Rightarrow> (string, 'fn) ParserConf \<Rightarrow> error + 'nearley Nearley_NoLex" where
  "Nearley_NoLex_init E lexer_conf' parser_conf' =
     (let token_by_name = token_by_name_of (tokens lexer_conf')
      in case comprehension
                (\<lambda>(n, x, a).
                    case Nearley_NoLex_prepare_expansion E token_by_name x of
                      Inl e \<Rightarrow> Inl e
                    | Inr syms \<Rightarrow>
                        (case getattr (callback parser_conf') a of
                           Inl e \<Rightarrow> Inl e
                         | Inr f \<Rightarrow> Inr \<lparr>rule_name = n, symbols = syms, postprocess = f\<rparr>))
                (rules parser_conf')
         of Inl e \<Rightarrow> Inl e
          | Inr rules' \<Rightarrow>
              (case propagate (nearley_Parser E rules' (start parser_conf')) of
                 Inl e \<Rightarrow> Inl e
               | Inr p \<Rightarrow> Inr \<lparr>nn_token_by_name = token_by_name, nn_parser = p\<rparr>))"

definition Nearley_NoLex_parse ::
  "('tok, 's, 'tree, 'lexer, 'clexer, 'lalr, 'act, 'earley, 'nearley, 'fn) collab
    \<Rightarrow> 'nearley Nearley_NoLex \<Rightarrow> string \<Rightarrow> (error + 'tree) \<times> 'nearley Nearley_NoLex" where
  "Nearley_NoLex_parse E self text =
     (case propagate (nearley_parse E (nn_parser self) (Text text)) of
        Inl e \<Rightarrow> (Inl e, self)
      | Inr res \<Rightarrow> (assert_single res, self))"

record ('earley) Earley_NoLex =
  en_token_by_name :: "string \<rightharpoonup> TokenDef"
  en_parser :: 'earley

definition Earley_NoLex_prepare_expansion ::
  "('tok, 's, 'tree, 'lexer, 'clexer, 'lalr, 'act, 'earley, 'nearley, 'fn) collab
    \<Rightarrow> (string \<rightharpoonup> TokenDef) \<Rightarrow> string list \<Rightarrow> error + rsym list" where
  "Earley_NoLex_prepare_expansion E token_by_name expansion =
     comprehension
       (\<lambda>sym. if is_terminal E sym then
                 (case compiled_regexp E token_by_name sym of
                    Inl e \<Rightarrow> Inl e
                  | Inr regexp \<Rightarrow> Inr (Tuple [ReMatch regexp]))
               else Inr (Name sym))
       expansion"

definition Earley_NoLex_init ::
  "('tok, 's, 'tree, 'lexer, 'clexer, 'lalr, 'act, 'earley, 'nearley, 'fn) collab
    \<Rightarrow> 's LexerConf \<Rightarrow> (string, 'fn) ParserConf \<Rightarrow> error + 'earley Earley_NoLex" where
  "Earley_NoLex_init E lexer_conf' parser_conf' =
     (let token_by_name = token_by_name_of (tokens lexer_conf')
      in case comprehension
                (\<lambda>(n, x, a).
                    case Earley_NoLex_prepare_expansion E token_by_name x of
                      Inl e \<Rightarrow> Inl e
                    | Inr syms \<Rightarrow> Inr (n, syms, a))
                (rules parser_conf')
         of Inl e \<Rightarrow> Inl e
          | Inr rules' \<Rightarrow>
              (case propagate
                      (earley_Parser E \<lparr>rules = rules', callback = callback parser_conf',
                                        start = start parser_conf'\<rparr>)
               of Inl e \<Rightarrow> Inl e
                | Inr p \<Rightarrow> Inr \<lparr>en_token_by_name = token_by_name, en_parser = p\<rparr>))"

definition Earley_NoLex_parse ::
  "('tok, 's, 'tree, 'lexer, 'clexer, 'lalr, 'act, 'earley, 'nearley, 'fn) collab
    \<Rightarrow> 'earley Earley_NoLex \<Rightarrow> string \<Rightarrow> (error + 'tree) \<times> 'earley Earley_NoLex" where
  "Earley_NoLex_parse E self text =
     (case propagate (earley_parse E (en_parser self) (Text text)) of
        Inl e \<Rightarrow> (Inl e, self)
      | Inr res \<Rightarrow> (assert_single res, self))"

section \<open>Frontend instances and the registry\<close>

text \<open>An instance of any of the six classes, and the method \<open>parse\<close> of its class.\<close>

datatype ('s, 'lexer, 'clexer, 'lalr, 'earley, 'nearley, 'fn) frontend =
    Inst_LALR "('s, 'lexer, 'fn, 'lalr) LALR"
  | Inst_LALR_ContextualLexer "('s, 'clexer, 'fn, 'lalr) LALR_ContextualLexer"
  | Inst_Nearley "('s, 'lexer, 'nearley) Nearley"
  | Inst_Earley "('s, 'lexer, 'earley) Earley"
  | Inst_Nearley_NoLex "'nearley Nearley_NoLex"
  | Inst_Earley_NoLex "'earley Earley_NoLex"

fun parse ::
  "('tok, 's, 'tree, 'lexer, 'clexer, 'lalr, 'act, 'earley, 'nearley, 'fn) collab
    \<Rightarrow> ('s, 'lexer, 'clexer, 'lalr, 'earley, 'nearley, 'fn) frontend \<Rightarrow> string
    \<Rightarrow> (error + 'tree) \<times> ('s, 'lexer, 'clexer, 'lalr, 'earley, 'nearley, 'fn) frontend" where
  "parse E (Inst_LALR self) text = map_prod id Inst_LALR (LALR_parse E self text)"
| "parse E (Inst_LALR_ContextualLexer self) text =
     map_prod id Inst_LALR_ContextualLexer (LALR_ContextualLexer_parse E self text)"
| "parse E (Inst_Nearley self) text = map_prod id Inst_Nearley (Nearley_parse E self text)"
| "parse E (Inst_Earley self) text = map_prod id Inst_Earley (Earley_parse E self text)"
| "parse E (Inst_Nearley_NoLex self) text =
     map_prod id Inst_Nearley_NoLex (Nearley_NoLex_parse E self text)"
| "parse E (Inst_Earley_NoLex self) text =
     map_prod id Inst_Earley_NoLex (Earley_NoLex_parse E self text)"

text \<open>The configurations an instance holds as attributes (the scannerless classes and
  the chart classes store no parser configuration; the scannerless ones no lexer
  configuration either).\<close>

fun held_lexer_conf ::
  "('s, 'lexer, 'clexer, 'lalr, 'earley, 'nearley, 'fn) frontend \<Rightarrow> 's LexerConf option" where
  "held_lexer_conf (Inst_LALR self) = Some (lexer_conf self)"
| "held_lexer_conf (Inst_LALR_ContextualLexer self) = Some (ctx_lexer_conf self)"
| "held_lexer_conf (Inst_Nearley self) = Some (lexer_conf self)"
| "held_lexer_conf (Inst_Earley self) = Some (lexer_conf self)"
| "held_lexer_conf (Inst_Nearley_NoLex self) = None"
| "held_lexer_conf (Inst_Earley_NoLex self) = None"

fun held_parser_conf ::
  "('s, 'lexer, 'clexer, 'lalr, 'earley, 'nearley, 'fn) frontend
    \<Rightarrow> (string, 'fn) ParserConf option" where
  "held_parser_conf (Inst_LALR self) = Some (parser_conf self)"
| "held_parser_conf (Inst_LALR_ContextualLexer self) = Some (ctx_parser_conf self)"
| "held_parser_conf (Inst_Nearley self) = None"
| "held_parser_conf (Inst_Earley self) = None"
| "held_parser_conf (Inst_Nearley_NoLex self) = None"
| "held_parser_conf (Inst_Earley_NoLex self) = None"

datatype frontend_class =
    Class_LALR
  | Class_LALR_ContextualLexer
  | Class_Nearley
  | Class_Earley
  | Class_Nearley_NoLex
  | Class_Earley_NoLex

definition ENGINE_DICT :: "string \<rightharpoonup> frontend_class" where
  "ENGINE_DICT =
     [''lalr'' \<mapsto> Class_LALR,
      ''earley'' \<mapsto> Class_Earley,
      ''earley_nolex'' \<mapsto> Class_Earley_NoLex,
      ''lalr_contextual_lexer'' \<mapsto> Class_LALR_ContextualLexer]"

text \<open>Calling a class object with the two configurations runs its \<open>__init__\<close>.\<close>

fun instantiate ::
  "('tok, 's, 'tree, 'lexer, 'clexer, 'lalr, 'act, 'earley, 'nearley, 'fn) collab
    \<Rightarrow> frontend_class \<Rightarrow> 's LexerConf \<Rightarrow> (string, 'fn) ParserConf
    \<Rightarrow> error + ('s, 'lexer, 'clexer, 'lalr, 'earley, 'nearley, 'fn) frontend" where
  "instantiate E Class_LALR lc pc = map_sum id Inst_LALR (LALR_init E lc pc)"
| "instantiate E Class_LALR_ContextualLexer lc pc =
     map_sum id Inst_LALR_ContextualLexer (LALR_ContextualLexer_init E lc pc)"
| "instantiate E Class_Nearley lc pc = map_sum id Inst_Nearley (Nearley_init E lc pc)"
| "instantiate E Class_Earley lc pc = map_sum id Inst_Earley (Earley_init E lc pc)"
| "instantiate E Class_Nearley_NoLex lc pc =
     map_sum id Inst_Nearley_NoLex (Nearley_NoLex_init E lc pc)"
| "instantiate E Class_Earley_NoLex lc pc =
     map_sum id Inst_Earley_NoLex (Earley_NoLex_init E lc pc)"

text \<open>
  Modelled from the spec: the caller that selects a frontend is not part of this file.
  Section 6 gives it as \<open>construct(identifier, LexerConfig, ParserConfig)\<close>, failing when
  the identifier is unrecognised; it is the subscript \<open>ENGINE_DICT[identifier]\<close>, whose
  failure is Python's \<open>KeyError\<close>, followed by the call of the class found.
\<close>

definition construct ::
  "('tok, 's, 'tree, 'lexer, 'clexer, 'lalr, 'act, 'earley, 'nearley, 'fn) collab
    \<Rightarrow> string \<Rightarrow> 's LexerConf \<Rightarrow> (string, 'fn) ParserConf
    \<Rightarrow> error + ('s, 'lexer, 'clexer, 'lalr, 'earley, 'nearley, 'fn) frontend" where
  "construct E identifier lc pc =
     (case ENGINE_DICT identifier of
        None \<Rightarrow> Inl (KeyError identifier)
      | Some cls \<Rightarrow> instantiate E cls lc pc)"

section \<open>The deterministic engine's run with a state setter\<close>

text \<open>
  Modelled from the spec: the token stream of the contextual lexer as the engine draws
  from it. The lexer module is not part of this file. Section 4.1 makes the stream a lazy,
  finite, single-pass sequence, and section 4.3 has each token scanned under the parser
  state that the lexer holds at that moment. Drawing from \<open>Lazy next\<close> while the lexer
  holds the state \<open>s\<close> gives \<open>next s\<close>: an exception, the end of the stream, or a token
  and the rest of the stream.
\<close>

datatype 'tok lazy = Lazy "nat option \<Rightarrow> 'tok item"
  and 'tok item = Raises exn | Exhausted | Yields 'tok "'tok lazy"

text \<open>
  Modelled from the spec: what the run below needs of the deterministic engine, which is
  not part of this file (glossary: a finite automaton over grammar states, driven by
  table lookup on state and lookahead token). \<open>items\<close> is the iteration over a stream
  object, \<open>initial\<close> the configuration a parse starts in, \<open>current_state\<close> the automaton
  state of a configuration, \<open>transition\<close> the configuration after a token (or the engine's
  exception when the state has no entry for it), and \<open>completed\<close> the outcome at the end
  of the input.
\<close>

record ('tok, 's, 'tree, 'lalr, 'cfg) lalr_engine =
  items :: "'s \<Rightarrow> 'tok lazy"
  initial :: "'lalr \<Rightarrow> 'cfg"
  current_state :: "'cfg \<Rightarrow> nat"
  transition :: "'lalr \<Rightarrow> 'cfg \<Rightarrow> 'tok \<Rightarrow> exn + 'cfg"
  completed :: "'lalr \<Rightarrow> 'cfg \<Rightarrow> exn + 'tree"

text \<open>
  Modelled from the spec: \<open>parse(stream, set_state)\<close> of the deterministic engine, which
  is not part of this file. Section 4.3: the lexing strategy must be informed of the
  parser's current automaton state before scanning each token; parser state, next lex
  attempt, next token, parser transition, new parser state, next lex attempt. So each
  round calls the setter with the current state \<open>s\<close>, draws the next item while the lexer
  holds \<open>Some s\<close>, and makes the transition. \<open>held\<close> is the state the lexer holds when a
  round begins; the setter replaces it before the scan. The result is the outcome and
  the states passed to the setter, in order. Section 3: the configuration is local to
  the call.
\<close>

primrec drive ::
    "('tok, 's, 'tree, 'lalr, 'cfg) lalr_engine \<Rightarrow> 'lalr \<Rightarrow> 'tok lazy \<Rightarrow> 'cfg \<Rightarrow> nat option
      \<Rightarrow> (exn + 'tree) \<times> nat list"
  and drive_item ::
    "('tok, 's, 'tree, 'lalr, 'cfg) lalr_engine \<Rightarrow> 'lalr \<Rightarrow> 'tok item \<Rightarrow> 'cfg \<Rightarrow> nat
      \<Rightarrow> (exn + 'tree) \<times> nat list" where
  "drive A p (Lazy next) cfg held =
     (let s = current_state A cfg
      in drive_item A p (next (Some s)) cfg s)"
| "drive_item A p (Raises x) cfg s = (Inl x, [s])"
| "drive_item A p Exhausted cfg s = (completed A p cfg, [s])"
| "drive_item A p (Yields tok rest) cfg s =
     (case transition A p cfg tok of
        Inl x \<Rightarrow> (Inl x, [s])
      | Inr cfg' \<Rightarrow> (let (res, calls) = drive A p rest cfg' (Some s) in (res, s # calls)))"



section \<open>A small instance of the collaborators\<close>

text \<open>
  Concrete collaborators on which the theorems below are run: a lexer that makes one token
  of every character, constructors that keep their arguments, engines whose number of
  derivations is the length of the input, and a regular-expression library that knows
  six patterns. The token table defines \<open>V\<close>, \<open>W\<close>, \<open>X\<close> and \<open>Y\<close>, of widths (0, 0),
  (0, 4294967295), (1, 1) and (2, 2), and \<open>U\<close>, a look-behind of variable width, which
  has width (1, 1) and which \<open>re.compile\<close> rejects; \<open>Z\<close> is a terminal that it does not
  define.
\<close>


definition ex_collab ::
  "(string, string list, string list, TokenDef list \<times> string list,
    TokenDef list \<times> (nat \<rightharpoonup> string set) \<times> string list \<times> string list,
    (string, nat) ParserConf, unit, (rsym, nat) ParserConf,
    nat NearleyRule list \<times> string, nat) collab" where
  "ex_collab =
     \<lparr>is_terminal = (\<lambda>s. s \<in> {''U'', ''V'', ''W'', ''X'', ''Y'', ''Z''}),
      getwidth = (\<lambda>r. if r = ''('' then Inl ''re.error''
                       else if r = ''ab'' then Inr (2, 2)
                       else if r = ''a*'' then Inr (0, 4294967295)
                       else if r = [] then Inr (0, 0)
                       else Inr (1, 1)),
      re_compile = (\<lambda>r. if r = ''(?<=a+)b''
                         then Inl ''look-behind requires fixed-width pattern''
                         else Inr ()),
      Lexer = (\<lambda>ts ig. Inr (ts, ig)),
      Lexer_lex = (\<lambda>lx text. map (\<lambda>c. [c]) text),
      to_list = Inr,
      ContextualLexer = (\<lambda>ts d ig aa. Inr (ts, d, ig, aa)),
      ContextualLexer_lex = (\<lambda>lx text. map (\<lambda>c. [c]) text),
      lalr_Parser = Inr,
      states_idx = (\<lambda>p. [0 \<mapsto> [''X'' \<mapsto> ()], 1 \<mapsto> Map.empty]),
      lalr_parse = (\<lambda>p toks. Inr toks),
      lalr_parse_set_state = (\<lambda>p stream s. (Inr stream, [0, 1])),
      earley_Parser = Inr,
      earley_parse = (\<lambda>p inp. case inp of
                         Tokens ts \<Rightarrow> Inr (replicate (length ts) ts)
                       | Text t \<Rightarrow> Inr (replicate (length t) [t])),
      nearley_Parser = (\<lambda>rs st. Inr (rs, st)),
      nearley_parse = (\<lambda>p inp. case inp of
                         Tokens ts \<Rightarrow> Inr (replicate (length ts) ts)
                       | Text t \<Rightarrow> Inr (replicate (length t) [t]))\<rparr>"

definition ex_postlex :: "string list PostLex" where
  "ex_postlex = \<lparr>process = rev, always_accept = [''WS'']\<rparr>"

definition ex_lexer_conf :: "string list LexerConf" where
  "ex_lexer_conf =
     \<lparr>tokens = [\<lparr>name = ''U'', to_regexp = ''(?<=a+)b''\<rparr>,
                \<lparr>name = ''V'', to_regexp = []\<rparr>, \<lparr>name = ''W'', to_regexp = ''a*''\<rparr>,
                \<lparr>name = ''X'', to_regexp = ''a''\<rparr>, \<lparr>name = ''Y'', to_regexp = ''ab''\<rparr>],
      ignore = [''WS''], postlex = None\<rparr>"

definition ex_lexer_conf_postlex :: "string list LexerConf" where
  "ex_lexer_conf_postlex = ex_lexer_conf\<lparr>ignore := [], postlex := Some ex_postlex\<rparr>"

definition ex_parser_conf :: "(string, nat) ParserConf" where
  "ex_parser_conf =
     \<lparr>rules = [(''s'', [''X'', ''t''], ''f''), (''t'', [''X''], ''g'')],
      callback = [''f'' \<mapsto> 1, ''g'' \<mapsto> 2],
      start = ''s''\<rparr>"

text \<open>
  A grammar whose first rule names an action the callback object lacks and whose second
  rule uses \<open>Y\<close>, of width (2, 2); one whose only rule uses \<open>Z\<close>, a terminal that the
  token table does not define, before \<open>Y\<close>; and one whose only rule uses \<open>U\<close>, which
  \<open>re.compile\<close> rejects, before \<open>Y\<close>.
\<close>

definition ex_parser_conf_action :: "(string, nat) ParserConf" where
  "ex_parser_conf_action =
     \<lparr>rules = [(''s'', [''t''], ''missing''), (''t'', [''Y''], ''g'')],
      callback = [''f'' \<mapsto> 1, ''g'' \<mapsto> 2],
      start = ''s''\<rparr>"

definition ex_parser_conf_undefined :: "(string, nat) ParserConf" where
  "ex_parser_conf_undefined =
     \<lparr>rules = [(''s'', [''Z'', ''Y''], ''f'')],
      callback = [''f'' \<mapsto> 1, ''g'' \<mapsto> 2],
      start = ''s''\<rparr>"

definition ex_parser_conf_lookbehind :: "(string, nat) ParserConf" where
  "ex_parser_conf_lookbehind =
     \<lparr>rules = [(''s'', [''U'', ''Y''], ''f'')],
      callback = [''f'' \<mapsto> 1, ''g'' \<mapsto> 2],
      start = ''s''\<rparr>"

text \<open>The grammar with the single rule \<open>s\<close> whose right-hand side is one symbol.\<close>

definition ex_grammar :: "string \<Rightarrow> (string, nat) ParserConf" where
  "ex_grammar symb =
     \<lparr>rules = [(''s'', [symb], ''f'')], callback = [''f'' \<mapsto> 1], start = ''s''\<rparr>"



text \<open>
  The instance that \<open>LALR_ContextualLexer\<close> builds from these configurations, and the same
  collaborators with an engine constructor that reports a conflict.
\<close>

definition ex_contextual ::
  "(string list, TokenDef list \<times> (nat \<rightharpoonup> string set) \<times> string list \<times> string list, nat,
    (string, nat) ParserConf) LALR_ContextualLexer" where
  "ex_contextual =
     \<lparr>ctx_lexer_conf = ex_lexer_conf_postlex,
      ctx_parser_conf = ex_parser_conf,
      ctx_parser = ex_parser_conf,
      ctx_lexer =
        \<lparr>strategy = (tokens ex_lexer_conf_postlex, [0 \<mapsto> {''X''}, 1 \<mapsto> {}], [], [''WS'']),
         parser_state = None\<rparr>\<rparr>"

definition ex_collab_conflict ::
  "(string, string list, string list, TokenDef list \<times> string list,
    TokenDef list \<times> (nat \<rightharpoonup> string set) \<times> string list \<times> string list,
    (string, nat) ParserConf, unit, (rsym, nat) ParserConf,
    nat NearleyRule list \<times> string, nat) collab" where
  "ex_collab_conflict = ex_collab\<lparr>lalr_Parser := (\<lambda>pc. Inl ''conflict'')\<rparr>"

section \<open>Properties\<close>

text \<open>
  C5. For every class with the \<open>WithLexer\<close> base (the instance is any extension of the
  \<open>WithLexer\<close> record), \<open>lex(text)\<close> is the lexer's stream over the text passed through
  the post-lex object's \<open>process\<close> when a post-lex object is configured, and the lexer's
  stream itself when none is.
\<close>

theorem WithLexer_lex_postlex:
  "(postlex (lexer_conf self) = Some pl \<longrightarrow>
      WithLexer_lex E self text = process pl (Lexer_lex E (lexer self) text))
   \<and> (postlex (lexer_conf self) = None \<longrightarrow>
      WithLexer_lex E self text = Lexer_lex E (lexer self) text)"
  by (simp add: WithLexer_lex_def)

theorem WithLexer_lex_postlex_witness:
  "postlex (lexer_conf \<lparr>lexer_conf = ex_lexer_conf_postlex, lexer = ([], [])\<rparr>) = Some ex_postlex
   \<and> WithLexer_lex ex_collab \<lparr>lexer_conf = ex_lexer_conf_postlex, lexer = ([], [])\<rparr> ''ab''
       = [''b'', ''a'']
   \<and> postlex (lexer_conf \<lparr>lexer_conf = ex_lexer_conf, lexer = ([], [])\<rparr>) = None
   \<and> WithLexer_lex ex_collab \<lparr>lexer_conf = ex_lexer_conf, lexer = ([], [])\<rparr> ''ab''
       = [''a'', ''b'']"
  using WithLexer_lex_postlex [of "\<lparr>lexer_conf = ex_lexer_conf_postlex, lexer = ([], [])\<rparr>"
          ex_postlex ex_collab "''ab''"]
        WithLexer_lex_postlex [of "\<lparr>lexer_conf = ex_lexer_conf, lexer = ([], [])\<rparr>"
          ex_postlex ex_collab "''ab''"]
  by (simp add: ex_lexer_conf_postlex_def ex_lexer_conf_def ex_postlex_def ex_collab_def)

lemma assert_single_one: "assert_single [t] = Inr t"
  by (simp add: assert_single_def)

lemma assert_single_other:
  "length res \<noteq> 1 \<Longrightarrow> assert_single res = Inl (AssertionError ''Ambiguious Parse! Not handled yet'')"
  by (simp add: assert_single_def)

text \<open>
  C2. For each of the four chart-engine classes, once the engine has returned its list of
  derivations: if the list has no element or more than one, \<open>parse\<close> fails with an
  assertion error; if it has exactly one, \<open>parse\<close> returns that derivation.
\<close>

theorem chart_parse_exactly_one:
  "(to_list E (WithLexer_lex E nl text) = Inr toks
      \<and> nearley_parse E (nearley_parser nl) (Tokens toks) = Inr res
    \<longrightarrow> (length res \<noteq> 1 \<longrightarrow> (\<exists>msg. fst (Nearley_parse E nl text) = Inl (AssertionError msg)))
        \<and> (\<forall>t. res = [t] \<longrightarrow> fst (Nearley_parse E nl text) = Inr t))
   \<and> (to_list E (WithLexer_lex E el text) = Inr toks
      \<and> earley_parse E (earley_parser el) (Tokens toks) = Inr res
    \<longrightarrow> (length res \<noteq> 1 \<longrightarrow> (\<exists>msg. fst (Earley_parse E el text) = Inl (AssertionError msg)))
        \<and> (\<forall>t. res = [t] \<longrightarrow> fst (Earley_parse E el text) = Inr t))
   \<and> (nearley_parse E (nn_parser nn) (Text text) = Inr res
    \<longrightarrow> (length res \<noteq> 1 \<longrightarrow> (\<exists>msg. fst (Nearley_NoLex_parse E nn text) = Inl (AssertionError msg)))
        \<and> (\<forall>t. res = [t] \<longrightarrow> fst (Nearley_NoLex_parse E nn text) = Inr t))
   \<and> (earley_parse E (en_parser en) (Text text) = Inr res
    \<longrightarrow> (length res \<noteq> 1 \<longrightarrow> (\<exists>msg. fst (Earley_NoLex_parse E en text) = Inl (AssertionError msg)))
        \<and> (\<forall>t. res = [t] \<longrightarrow> fst (Earley_NoLex_parse E en text) = Inr t))"
  by (simp add: Nearley_parse_def Earley_parse_def Nearley_NoLex_parse_def
        Earley_NoLex_parse_def propagate_def assert_single_one assert_single_other)

theorem chart_parse_exactly_one_witness:
  "to_list ex_collab
      (WithLexer_lex ex_collab
         \<lparr>lexer_conf = ex_lexer_conf, lexer = ([], []), earley_parser = \<lparr>rules = [], callback = Map.empty, start = []\<rparr>\<rparr> ''a'')
     = Inr [''a'']
   \<and> earley_parse ex_collab \<lparr>rules = [], callback = Map.empty, start = []\<rparr> (Tokens [''a'']) = Inr [[''a'']]
   \<and> fst (Earley_parse ex_collab
         \<lparr>lexer_conf = ex_lexer_conf, lexer = ([], []), earley_parser = \<lparr>rules = [], callback = Map.empty, start = []\<rparr>\<rparr> ''a'')
     = Inr [''a'']
   \<and> nearley_parse ex_collab ([], ''s'') (Text ''ab'') = Inr [[''ab''], [''ab'']]
   \<and> fst (Nearley_NoLex_parse ex_collab
         \<lparr>nn_token_by_name = Map.empty, nn_parser = ([], ''s'')\<rparr> ''ab'')
     = Inl (AssertionError ''Ambiguious Parse! Not handled yet'')
   \<and> earley_parse ex_collab \<lparr>rules = [], callback = Map.empty, start = []\<rparr> (Text []) = Inr []
   \<and> fst (Earley_NoLex_parse ex_collab
         \<lparr>en_token_by_name = Map.empty, en_parser = \<lparr>rules = [], callback = Map.empty, start = []\<rparr>\<rparr> [])
     = Inl (AssertionError ''Ambiguious Parse! Not handled yet'')"
  using chart_parse_exactly_one [of ex_collab _ "''a''" "[''a'']" "[[''a'']]"
          "\<lparr>lexer_conf = ex_lexer_conf, lexer = ([], []), earley_parser = \<lparr>rules = [], callback = Map.empty, start = []\<rparr>\<rparr>"]
        chart_parse_exactly_one [of ex_collab _ "''ab''" _ "[[''ab''], [''ab'']]" _
          "\<lparr>nn_token_by_name = Map.empty, nn_parser = ([], ''s'')\<rparr>"]
        chart_parse_exactly_one [of ex_collab _ "[]" _ "[]" _ _
          "\<lparr>en_token_by_name = Map.empty, en_parser = \<lparr>rules = [], callback = Map.empty, start = []\<rparr>\<rparr>"]
  by (simp add: ex_collab_def ex_lexer_conf_def WithLexer_lex_def Earley_parse_def
        Nearley_NoLex_parse_def Earley_NoLex_parse_def propagate_def assert_single_def)

text \<open>
  C6. In \<open>Nearley\<close> and \<open>Earley\<close> the translation of an expansion keeps its length and its
  order; a terminal becomes a tuple marker, the one-element tuple \<open>(sym,)\<close> in \<open>Earley\<close> and
  the two-element tuple \<open>(sym, None)\<close> in \<open>Nearley\<close>; a nonterminal is passed through as its
  bare name; so in both a symbol is a terminal exactly when its translation is a tuple.
\<close>

theorem prepare_expansion_markers:
  "length (Earley_prepare_expansion E x) = length x
   \<and> length (Nearley_prepare_expansion E x) = length x
   \<and> (\<forall>i < length x.
         (is_terminal E (x ! i) \<longrightarrow>
            Earley_prepare_expansion E x ! i = Tuple [Str (x ! i)]
            \<and> Nearley_prepare_expansion E x ! i = Tuple [Str (x ! i), NoneObj])
         \<and> (\<not> is_terminal E (x ! i) \<longrightarrow>
            Earley_prepare_expansion E x ! i = Name (x ! i)
            \<and> Nearley_prepare_expansion E x ! i = Name (x ! i))
         \<and> (is_terminal E (x ! i) \<longleftrightarrow> (\<exists>es. Earley_prepare_expansion E x ! i = Tuple es))
         \<and> (is_terminal E (x ! i) \<longleftrightarrow> (\<exists>es. Nearley_prepare_expansion E x ! i = Tuple es)))"
  by (simp add: Earley_prepare_expansion_def Nearley_prepare_expansion_def)

theorem prepare_expansion_markers_witness:
  "(1::nat) < length [''X'', ''t'']
   \<and> is_terminal ex_collab ([''X'', ''t''] ! 0)
   \<and> \<not> is_terminal ex_collab ([''X'', ''t''] ! 1)
   \<and> Earley_prepare_expansion ex_collab [''X'', ''t''] = [Tuple [Str ''X''], Name ''t'']
   \<and> Nearley_prepare_expansion ex_collab [''X'', ''t'']
       = [Tuple [Str ''X'', NoneObj], Name ''t'']"
  using prepare_expansion_markers [of ex_collab "[''X'', ''t'']"]
  by (simp add: Earley_prepare_expansion_def Nearley_prepare_expansion_def ex_collab_def)

text \<open>
  The claim as written, that the marker of a terminal has a single element in both
  classes, fails for \<open>Nearley\<close>: the marker of the terminal \<open>X\<close> is the pair \<open>(X, None)\<close>.
\<close>

theorem Nearley_marker_counterexample:
  "is_terminal ex_collab ''X''
   \<and> Nearley_prepare_expansion ex_collab [''X''] = [Tuple [Str ''X'', NoneObj]]
   \<and> \<not> (\<exists>e. Nearley_prepare_expansion ex_collab [''X''] ! 0 = Tuple [e])"
  by (simp add: Nearley_prepare_expansion_def ex_collab_def)

text \<open>
  C4. The registry has exactly the four keys \<open>lalr\<close>, \<open>earley\<close>, \<open>earley_nolex\<close> and
  \<open>lalr_contextual_lexer\<close>, each bound to its class. For any other identifier the lookup
  fails, and \<open>construct\<close> returns that failure whatever the collaborators are: no
  constructor of a lexer, an engine or a frontend takes part.
\<close>

theorem ENGINE_DICT_lookup:
  "dom ENGINE_DICT = {''lalr'', ''earley'', ''earley_nolex'', ''lalr_contextual_lexer''}
   \<and> ENGINE_DICT ''lalr'' = Some Class_LALR
   \<and> ENGINE_DICT ''earley'' = Some Class_Earley
   \<and> ENGINE_DICT ''earley_nolex'' = Some Class_Earley_NoLex
   \<and> ENGINE_DICT ''lalr_contextual_lexer'' = Some Class_LALR_ContextualLexer
   \<and> (identifier \<notin> {''lalr'', ''earley'', ''earley_nolex'', ''lalr_contextual_lexer''} \<longrightarrow>
        ENGINE_DICT identifier = None
        \<and> construct E identifier lc pc = Inl (KeyError identifier))
   \<and> (ENGINE_DICT identifier = Some cls \<longrightarrow>
        construct E identifier lc pc = instantiate E cls lc pc)"
  by (auto simp add: ENGINE_DICT_def construct_def)

theorem ENGINE_DICT_lookup_witness:
  "''nearley'' \<notin> {''lalr'', ''earley'', ''earley_nolex'', ''lalr_contextual_lexer''}
   \<and> ENGINE_DICT ''nearley'' = None
   \<and> construct ex_collab ''nearley'' ex_lexer_conf ex_parser_conf = Inl (KeyError ''nearley'')
   \<and> ENGINE_DICT ''earley'' = Some Class_Earley
   \<and> construct ex_collab ''earley'' ex_lexer_conf ex_parser_conf
       = instantiate ex_collab Class_Earley ex_lexer_conf ex_parser_conf"
  using ENGINE_DICT_lookup [of "''nearley''" ex_collab ex_lexer_conf ex_parser_conf]
        ENGINE_DICT_lookup [of "''earley''" ex_collab ex_lexer_conf ex_parser_conf Class_Earley]
  by (simp add: ENGINE_DICT_def)

lemma strategy_fold_set_parser_state:
  "strategy (fold set_parser_state calls lx) = strategy lx"
  by (induction calls arbitrary: lx) (simp_all add: set_parser_state_def)

lemma LALR_ContextualLexer_parse_snd:
  "snd (LALR_ContextualLexer_parse E self text) =
     self\<lparr>ctx_lexer :=
            fold set_parser_state
              (snd (lalr_parse_set_state E (ctx_parser self)
                      (case postlex (ctx_lexer_conf self) of
                         Some pl \<Rightarrow> process pl (ContextualLexer_lex E (strategy (ctx_lexer self)) text)
                       | None \<Rightarrow> ContextualLexer_lex E (strategy (ctx_lexer self)) text)
                      (parser_state (ctx_lexer self))))
              (ctx_lexer self)\<rparr>"
  by (simp add: LALR_ContextualLexer_parse_def Let_def split_beta)

lemma LALR_ContextualLexer_parse_fst:
  "fst (LALR_ContextualLexer_parse E self text) =
     propagate
       (fst (lalr_parse_set_state E (ctx_parser self)
               (case postlex (ctx_lexer_conf self) of
                  Some pl \<Rightarrow> process pl (ContextualLexer_lex E (strategy (ctx_lexer self)) text)
                | None \<Rightarrow> ContextualLexer_lex E (strategy (ctx_lexer self)) text)
               (parser_state (ctx_lexer self))))"
  by (simp add: LALR_ContextualLexer_parse_def Let_def split_beta)

text \<open>
  C1. Construction of \<open>LALR_ContextualLexer\<close> calls the engine's constructor first: if that
  fails, its exception is the outcome. If construction succeeds, the instance holds the
  engine so built and a contextual lexer built from the token table, the ignore list, a
  mapping \<open>d\<close> and an always-accept list; \<open>d\<close> has exactly the state indices of the engine's
  \<open>states_idx\<close> as keys and sends each to the key set of that state's table; the
  always-accept list is the post-lex object's when one is configured and empty otherwise.
  \<open>parse\<close> leaves the engine and the lexer so built in place: it builds neither again.
\<close>

theorem LALR_ContextualLexer_construction:
  "(lalr_Parser E pc = Inl x \<longrightarrow> LALR_ContextualLexer_init E lc pc = Inl (Propagated x))
   \<and> (LALR_ContextualLexer_init E lc pc = Inr self \<longrightarrow>
         lalr_Parser E pc = Inr (ctx_parser self)
         \<and> (\<exists>d. ContextualLexer E (tokens lc) d (ignore lc)
                   (case postlex lc of Some pl \<Rightarrow> always_accept pl | None \<Rightarrow> [])
                  = Inr (strategy (ctx_lexer self))
                \<and> dom d = dom (states_idx E (ctx_parser self))
                \<and> (\<forall>idx t. states_idx E (ctx_parser self) idx = Some t \<longrightarrow> d idx = Some (dom t)))
         \<and> ctx_lexer_conf self = lc \<and> ctx_parser_conf self = pc)
   \<and> strategy (ctx_lexer (snd (LALR_ContextualLexer_parse E inst text)))
       = strategy (ctx_lexer inst)
   \<and> ctx_parser (snd (LALR_ContextualLexer_parse E inst text)) = ctx_parser inst"
proof (intro conjI impI)
  assume "lalr_Parser E pc = Inl x"
  then show "LALR_ContextualLexer_init E lc pc = Inl (Propagated x)"
    by (simp add: LALR_ContextualLexer_init_def propagate_def)
next
  assume ok: "LALR_ContextualLexer_init E lc pc = Inr self"
  then obtain p where p: "lalr_Parser E pc = Inr p"
    by (cases "lalr_Parser E pc") (simp_all add: LALR_ContextualLexer_init_def propagate_def)
  let ?d = "\<lambda>idx. map_option dom (states_idx E p idx)"
  let ?aa = "case postlex lc of Some pl \<Rightarrow> always_accept pl | None \<Rightarrow> []"
  from ok p obtain lx where lx: "ContextualLexer E (tokens lc) ?d (ignore lc) ?aa = Inr lx"
    by (cases "ContextualLexer E (tokens lc) ?d (ignore lc) ?aa")
       (simp_all add: LALR_ContextualLexer_init_def propagate_def)
  from ok p lx have self:
    "self = \<lparr>ctx_lexer_conf = lc, ctx_parser_conf = pc, ctx_parser = p,
             ctx_lexer = \<lparr>strategy = lx, parser_state = None\<rparr>\<rparr>"
    by (simp add: LALR_ContextualLexer_init_def propagate_def)
  show "lalr_Parser E pc = Inr (ctx_parser self)"
    using p self by simp
  show "ctx_lexer_conf self = lc" and "ctx_parser_conf self = pc"
    using self by simp_all
  have "dom ?d = dom (states_idx E p)"
    by (auto simp: dom_def)
  moreover have "\<forall>idx t. states_idx E p idx = Some t \<longrightarrow> ?d idx = Some (dom t)"
    by simp
  ultimately show "\<exists>d. ContextualLexer E (tokens lc) d (ignore lc) ?aa
                        = Inr (strategy (ctx_lexer self))
                      \<and> dom d = dom (states_idx E (ctx_parser self))
                      \<and> (\<forall>idx t. states_idx E (ctx_parser self) idx = Some t
                            \<longrightarrow> d idx = Some (dom t))"
    using lx self by (intro exI [of _ ?d]) simp
next
  show "strategy (ctx_lexer (snd (LALR_ContextualLexer_parse E inst text)))
          = strategy (ctx_lexer inst)"
    by (simp add: LALR_ContextualLexer_parse_snd strategy_fold_set_parser_state)
next
  show "ctx_parser (snd (LALR_ContextualLexer_parse E inst text)) = ctx_parser inst"
    by (simp add: LALR_ContextualLexer_parse_snd)
qed


theorem LALR_ContextualLexer_construction_witness:
  "lalr_Parser ex_collab_conflict ex_parser_conf = Inl ''conflict''
   \<and> LALR_ContextualLexer_init ex_collab_conflict ex_lexer_conf_postlex ex_parser_conf
       = Inl (Propagated ''conflict'')
   \<and> LALR_ContextualLexer_init ex_collab ex_lexer_conf_postlex ex_parser_conf
       = Inr ex_contextual
   \<and> lalr_Parser ex_collab ex_parser_conf = Inr (ctx_parser ex_contextual)
   \<and> ContextualLexer ex_collab (tokens ex_lexer_conf_postlex) [0 \<mapsto> {''X''}, 1 \<mapsto> {}]
        (ignore ex_lexer_conf_postlex) [''WS'']
       = Inr (strategy (ctx_lexer ex_contextual))
   \<and> states_idx ex_collab (ctx_parser ex_contextual) 0 = Some [''X'' \<mapsto> ()]
   \<and> parser_state (ctx_lexer (snd (LALR_ContextualLexer_parse ex_collab ex_contextual ''ab'')))
       = Some 1
   \<and> strategy (ctx_lexer (snd (LALR_ContextualLexer_parse ex_collab ex_contextual ''ab'')))
       = strategy (ctx_lexer ex_contextual)"
proof -
  have init: "LALR_ContextualLexer_init ex_collab ex_lexer_conf_postlex ex_parser_conf
                = Inr ex_contextual"
    by (auto simp add: LALR_ContextualLexer_init_def ex_collab_def ex_contextual_def
          ex_lexer_conf_postlex_def ex_postlex_def ex_lexer_conf_def propagate_def fun_eq_iff)
  have fail: "lalr_Parser ex_collab_conflict ex_parser_conf = Inl ''conflict''"
    by (simp add: ex_collab_conflict_def)
  have state: "parser_state
                 (ctx_lexer (snd (LALR_ContextualLexer_parse ex_collab ex_contextual ''ab'')))
               = Some 1"
    by (simp add: LALR_ContextualLexer_parse_snd ex_collab_def set_parser_state_def)
  show ?thesis
    using LALR_ContextualLexer_construction
            [of ex_collab_conflict ex_parser_conf "''conflict''" ex_lexer_conf_postlex
                ex_contextual ex_contextual "''ab''"]
          LALR_ContextualLexer_construction
            [of ex_collab ex_parser_conf "''conflict''" ex_lexer_conf_postlex
                ex_contextual ex_contextual "''ab''"]
          init fail state
    by (simp add: ex_collab_def ex_contextual_def ex_lexer_conf_postlex_def
          ex_lexer_conf_def)
qed

lemma comprehension_Inl_elem:
  "comprehension f xs = Inl e \<Longrightarrow> \<exists>x \<in> set xs. f x = Inl e"
  by (induction xs arbitrary: e) (auto split: sum.splits)

lemma comprehension_fails_elem:
  "x \<in> set xs \<Longrightarrow> f x = Inl e \<Longrightarrow> \<exists>e'. comprehension f xs = Inl e'"
proof (induction xs)
  case Nil
  then show ?case by simp
next
  case (Cons a xs)
  show ?case
  proof (cases "f a")
    case (Inl e0)
    then show ?thesis by simp
  next
    case (Inr y)
    with Cons have "x \<in> set xs"
      by auto
    with Cons obtain e' where "comprehension f xs = Inl e'"
      by blast
    with Inr show ?thesis by simp
  qed
qed

lemma comprehension_fails:
  "\<exists>x \<in> set xs. \<exists>e. f x = Inl e \<Longrightarrow> \<exists>e. comprehension f xs = Inl e"
  by (blast dest: comprehension_fails_elem)

lemma compiled_regexp_defined:
  "tbn s = Some t \<Longrightarrow> getwidth E (to_regexp t) = Inr w \<Longrightarrow>
   (w = (1, 1) \<longrightarrow> re_compile E (to_regexp t) = Inr ()) \<Longrightarrow>
   compiled_regexp E tbn s =
     (if w = (1, 1) then Inr (to_regexp t) else Inl (GrammarError (to_regexp t) w))"
  by (simp add: compiled_regexp_def propagate_def)

text \<open>Under the hypothesis that every terminal of the expansion is defined with a
  pattern that \<open>sre_parse\<close> parses and, when its width is (1, 1), \<open>re.compile\<close> compiles,
  the translation of an expansion fails only with the width error, and it fails exactly
  when one of its terminals has a width other than (1, 1).\<close>

lemma Earley_NoLex_prepare_expansion_Inl:
  assumes "\<forall>s \<in> set x. is_terminal E s \<longrightarrow>
             (\<exists>t w. tbn s = Some t \<and> getwidth E (to_regexp t) = Inr w
                    \<and> (w = (1, 1) \<longrightarrow> re_compile E (to_regexp t) = Inr ()))"
      and "Earley_NoLex_prepare_expansion E tbn x = Inl e"
  shows "(\<exists>r w. e = GrammarError r w)
         \<and> (\<exists>s \<in> set x. is_terminal E s \<and>
               (\<exists>t w. tbn s = Some t \<and> getwidth E (to_regexp t) = Inr w \<and> w \<noteq> (1, 1)))"
proof -
  from assms(2) obtain s where s: "s \<in> set x"
    and fs: "(if is_terminal E s then
                (case compiled_regexp E tbn s of
                   Inl e \<Rightarrow> Inl e
                 | Inr regexp \<Rightarrow> Inr (Tuple [ReMatch regexp]))
              else Inr (Name s)) = Inl e"
    unfolding Earley_NoLex_prepare_expansion_def
    by (blast dest: comprehension_Inl_elem)
  from fs have trm: "is_terminal E s"
    by (auto split: if_splits)
  with assms(1) s obtain t w where t: "tbn s = Some t" and w: "getwidth E (to_regexp t) = Inr w"
    and c: "w = (1, 1) \<longrightarrow> re_compile E (to_regexp t) = Inr ()"
    by blast
  from fs trm t w c have "w \<noteq> (1, 1)" and "e = GrammarError (to_regexp t) w"
    by (auto simp add: compiled_regexp_defined [of tbn s t E w] split: if_splits)
  with s trm t w show ?thesis
    by blast
qed

lemma Earley_NoLex_prepare_expansion_bad:
  assumes "s \<in> set x" and "is_terminal E s" and "tbn s = Some t"
      and "getwidth E (to_regexp t) = Inr w" and "w \<noteq> (1, 1)"
  shows "\<exists>e. Earley_NoLex_prepare_expansion E tbn x = Inl e"
  unfolding Earley_NoLex_prepare_expansion_def
proof (rule comprehension_fails)
  show "\<exists>s\<in>set x. \<exists>e. (if is_terminal E s then
              (case compiled_regexp E tbn s of
                 Inl e \<Rightarrow> Inl e
               | Inr regexp \<Rightarrow> Inr (Tuple [ReMatch regexp]))
            else Inr (Name s)) = Inl e"
    using assms by (intro bexI [of _ s]) (simp_all add: compiled_regexp_defined)
qed

lemma Nearley_NoLex_prepare_expansion_Inl:
  assumes "\<forall>s \<in> set x. is_terminal E s \<longrightarrow>
             (\<exists>t w. tbn s = Some t \<and> getwidth E (to_regexp t) = Inr w
                    \<and> (w = (1, 1) \<longrightarrow> re_compile E (to_regexp t) = Inr ()))"
      and "Nearley_NoLex_prepare_expansion E tbn x = Inl e"
  shows "(\<exists>r w. e = GrammarError r w)
         \<and> (\<exists>s \<in> set x. is_terminal E s \<and>
               (\<exists>t w. tbn s = Some t \<and> getwidth E (to_regexp t) = Inr w \<and> w \<noteq> (1, 1)))"
proof -
  from assms(2) obtain s where s: "s \<in> set x"
    and fs: "(if is_terminal E s then
                (case compiled_regexp E tbn s of
                   Inl e \<Rightarrow> Inl e
                 | Inr regexp \<Rightarrow> Inr (Tuple [Str s, RePattern regexp]))
              else Inr (Name s)) = Inl e"
    unfolding Nearley_NoLex_prepare_expansion_def
    by (blast dest: comprehension_Inl_elem)
  from fs have trm: "is_terminal E s"
    by (auto split: if_splits)
  with assms(1) s obtain t w where t: "tbn s = Some t" and w: "getwidth E (to_regexp t) = Inr w"
    and c: "w = (1, 1) \<longrightarrow> re_compile E (to_regexp t) = Inr ()"
    by blast
  from fs trm t w c have "w \<noteq> (1, 1)" and "e = GrammarError (to_regexp t) w"
    by (auto simp add: compiled_regexp_defined [of tbn s t E w] split: if_splits)
  with s trm t w show ?thesis
    by blast
qed

lemma Nearley_NoLex_prepare_expansion_bad:
  assumes "s \<in> set x" and "is_terminal E s" and "tbn s = Some t"
      and "getwidth E (to_regexp t) = Inr w" and "w \<noteq> (1, 1)"
  shows "\<exists>e. Nearley_NoLex_prepare_expansion E tbn x = Inl e"
  unfolding Nearley_NoLex_prepare_expansion_def
proof (rule comprehension_fails)
  show "\<exists>s\<in>set x. \<exists>e. (if is_terminal E s then
              (case compiled_regexp E tbn s of
                 Inl e \<Rightarrow> Inl e
               | Inr regexp \<Rightarrow> Inr (Tuple [Str s, RePattern regexp]))
            else Inr (Name s)) = Inl e"
    using assms by (intro bexI [of _ s]) (simp_all add: compiled_regexp_defined)
qed


lemma Earley_NoLex_rules_Inl:
  assumes defined: "\<forall>(n, x, a) \<in> set rs. \<forall>s \<in> set x. is_terminal E s \<longrightarrow>
             (\<exists>t w. tbn s = Some t \<and> getwidth E (to_regexp t) = Inr w
                    \<and> (w = (1, 1) \<longrightarrow> re_compile E (to_regexp t) = Inr ()))"
      and fails: "comprehension
             (\<lambda>(n, x, a). case Earley_NoLex_prepare_expansion E tbn x of
                             Inl e \<Rightarrow> Inl e
                           | Inr syms \<Rightarrow> Inr (n, syms, a)) rs = Inl e"
  shows "(\<exists>r w. e = GrammarError r w)
         \<and> (\<exists>(n, x, a) \<in> set rs. \<exists>s \<in> set x. is_terminal E s \<and>
               (\<exists>t w. tbn s = Some t \<and> getwidth E (to_regexp t) = Inr w \<and> w \<noteq> (1, 1)))"
proof -
  from comprehension_Inl_elem [OF fails] obtain n x a where
    mem: "(n, x, a) \<in> set rs" and
    prep: "Earley_NoLex_prepare_expansion E tbn x = Inl e"
    by (auto split: sum.splits)
  from defined mem have "\<forall>s \<in> set x. is_terminal E s \<longrightarrow>
             (\<exists>t w. tbn s = Some t \<and> getwidth E (to_regexp t) = Inr w
                    \<and> (w = (1, 1) \<longrightarrow> re_compile E (to_regexp t) = Inr ()))"
    by blast
  from Earley_NoLex_prepare_expansion_Inl [OF this prep] mem show ?thesis
    by blast
qed

lemma Earley_NoLex_rules_bad:
  assumes "(n, x, a) \<in> set rs" and "s \<in> set x" and "is_terminal E s" and "tbn s = Some t"
      and "getwidth E (to_regexp t) = Inr w" and "w \<noteq> (1, 1)"
  shows "\<exists>e. comprehension
             (\<lambda>(n, x, a). case Earley_NoLex_prepare_expansion E tbn x of
                             Inl e \<Rightarrow> Inl e
                           | Inr syms \<Rightarrow> Inr (n, syms, a)) rs = Inl e"
proof -
  from assms(2-6) Earley_NoLex_prepare_expansion_bad [of s x E tbn t w] obtain e0 where
    "Earley_NoLex_prepare_expansion E tbn x = Inl e0"
    by blast
  then have "(\<lambda>(n, x, a). case Earley_NoLex_prepare_expansion E tbn x of
                             Inl e \<Rightarrow> Inl e
                           | Inr syms \<Rightarrow> Inr (n, syms, a)) (n, x, a) = Inl e0"
    by simp
  with assms(1) show ?thesis
    by (rule comprehension_fails_elem)
qed

lemma Nearley_NoLex_rules_Inl:
  assumes defined: "\<forall>(n, x, a) \<in> set rs. \<forall>s \<in> set x. is_terminal E s \<longrightarrow>
             (\<exists>t w. tbn s = Some t \<and> getwidth E (to_regexp t) = Inr w
                    \<and> (w = (1, 1) \<longrightarrow> re_compile E (to_regexp t) = Inr ()))"
      and actions: "\<forall>(n, x, a) \<in> set rs. cb a \<noteq> None"
      and fails: "comprehension
             (\<lambda>(n, x, a). case Nearley_NoLex_prepare_expansion E tbn x of
                             Inl e \<Rightarrow> Inl e
                           | Inr syms \<Rightarrow>
                               (case getattr cb a of
                                  Inl e \<Rightarrow> Inl e
                                | Inr f \<Rightarrow> Inr \<lparr>rule_name = n, symbols = syms, postprocess = f\<rparr>))
             rs = Inl e"
  shows "(\<exists>r w. e = GrammarError r w)
         \<and> (\<exists>(n, x, a) \<in> set rs. \<exists>s \<in> set x. is_terminal E s \<and>
               (\<exists>t w. tbn s = Some t \<and> getwidth E (to_regexp t) = Inr w \<and> w \<noteq> (1, 1)))"
proof -
  from comprehension_Inl_elem [OF fails] obtain n x a where
    mem: "(n, x, a) \<in> set rs" and
    step: "(case Nearley_NoLex_prepare_expansion E tbn x of
              Inl e \<Rightarrow> Inl e
            | Inr syms \<Rightarrow>
                (case getattr cb a of
                   Inl e \<Rightarrow> Inl e
                 | Inr f \<Rightarrow> Inr \<lparr>rule_name = n, symbols = syms, postprocess = f\<rparr>)) = Inl e"
    by auto
  from actions mem obtain f where "cb a = Some f"
    by auto
  with step have prep: "Nearley_NoLex_prepare_expansion E tbn x = Inl e"
    by (auto simp add: getattr_def split: sum.splits)
  from defined mem have "\<forall>s \<in> set x. is_terminal E s \<longrightarrow>
             (\<exists>t w. tbn s = Some t \<and> getwidth E (to_regexp t) = Inr w
                    \<and> (w = (1, 1) \<longrightarrow> re_compile E (to_regexp t) = Inr ()))"
    by blast
  from Nearley_NoLex_prepare_expansion_Inl [OF this prep] mem show ?thesis
    by blast
qed

lemma Nearley_NoLex_rules_bad:
  assumes "(n, x, a) \<in> set rs" and "s \<in> set x" and "is_terminal E s" and "tbn s = Some t"
      and "getwidth E (to_regexp t) = Inr w" and "w \<noteq> (1, 1)"
  shows "\<exists>e. comprehension
             (\<lambda>(n, x, a). case Nearley_NoLex_prepare_expansion E tbn x of
                             Inl e \<Rightarrow> Inl e
                           | Inr syms \<Rightarrow>
                               (case getattr cb a of
                                  Inl e \<Rightarrow> Inl e
                                | Inr f \<Rightarrow> Inr \<lparr>rule_name = n, symbols = syms, postprocess = f\<rparr>))
             rs = Inl e"
proof -
  from assms(2-6) Nearley_NoLex_prepare_expansion_bad [of s x E tbn t w] obtain e0 where
    "Nearley_NoLex_prepare_expansion E tbn x = Inl e0"
    by blast
  then have "(\<lambda>(n, x, a). case Nearley_NoLex_prepare_expansion E tbn x of
                             Inl e \<Rightarrow> Inl e
                           | Inr syms \<Rightarrow>
                               (case getattr cb a of
                                  Inl e \<Rightarrow> Inl e
                                | Inr f \<Rightarrow> Inr \<lparr>rule_name = n, symbols = syms, postprocess = f\<rparr>))
             (n, x, a) = Inl e0"
    by simp
  with assms(1) show ?thesis
    by (rule comprehension_fails_elem)
qed


lemma Earley_NoLex_init_Inl:
  "Earley_NoLex_init E lc pc = Inl e \<Longrightarrow>
     comprehension
       (\<lambda>(n, x, a). case Earley_NoLex_prepare_expansion E (token_by_name_of (tokens lc)) x of
                       Inl e \<Rightarrow> Inl e
                     | Inr syms \<Rightarrow> Inr (n, syms, a)) (rules pc) = Inl e
     \<or> (\<exists>x. e = Propagated x)"
  by (auto simp add: Earley_NoLex_init_def Let_def propagate_def split: sum.splits)

lemma Earley_NoLex_init_rules_Inl:
  "comprehension
     (\<lambda>(n, x, a). case Earley_NoLex_prepare_expansion E (token_by_name_of (tokens lc)) x of
                     Inl e \<Rightarrow> Inl e
                   | Inr syms \<Rightarrow> Inr (n, syms, a)) (rules pc) = Inl e
   \<Longrightarrow> Earley_NoLex_init E lc pc = Inl e"
  by (simp add: Earley_NoLex_init_def Let_def)

lemma Nearley_NoLex_init_Inl:
  "Nearley_NoLex_init E lc pc = Inl e \<Longrightarrow>
     comprehension
       (\<lambda>(n, x, a). case Nearley_NoLex_prepare_expansion E (token_by_name_of (tokens lc)) x of
                       Inl e \<Rightarrow> Inl e
                     | Inr syms \<Rightarrow>
                         (case getattr (callback pc) a of
                            Inl e \<Rightarrow> Inl e
                          | Inr f \<Rightarrow> Inr \<lparr>rule_name = n, symbols = syms, postprocess = f\<rparr>))
       (rules pc) = Inl e
     \<or> (\<exists>x. e = Propagated x)"
  by (auto simp add: Nearley_NoLex_init_def Let_def propagate_def split: sum.splits)

lemma Nearley_NoLex_init_rules_Inl:
  "comprehension
     (\<lambda>(n, x, a). case Nearley_NoLex_prepare_expansion E (token_by_name_of (tokens lc)) x of
                     Inl e \<Rightarrow> Inl e
                   | Inr syms \<Rightarrow>
                       (case getattr (callback pc) a of
                          Inl e \<Rightarrow> Inl e
                        | Inr f \<Rightarrow> Inr \<lparr>rule_name = n, symbols = syms, postprocess = f\<rparr>))
     (rules pc) = Inl e
   \<Longrightarrow> Nearley_NoLex_init E lc pc = Inl e"
  by (simp add: Nearley_NoLex_init_def Let_def)

text \<open>
  C3, as amended. Suppose every terminal in a rule's right-hand side is defined in the
  token table with a pattern that \<open>sre_parse\<close> parses and, when its width is (1, 1),
  \<open>re.compile\<close> compiles. Then
  construction of \<open>Earley_NoLex\<close> fails with the grammar error exactly when some terminal in
  a right-hand side has a pattern whose width is not (1, 1); the same holds for
  \<open>Nearley_NoLex\<close> when, in addition, the callback object provides every rule's action.
  When no such terminal exists, construction can fail only inside the engine's
  constructor.
\<close>

theorem scannerless_width_check:
  assumes defined:
    "\<forall>(n, x, a) \<in> set (rules pc). \<forall>s \<in> set x. is_terminal E s \<longrightarrow>
       (\<exists>t w. token_by_name_of (tokens lc) s = Some t \<and> getwidth E (to_regexp t) = Inr w
              \<and> (w = (1, 1) \<longrightarrow> re_compile E (to_regexp t) = Inr ()))"
  shows
    "((\<exists>r w. Earley_NoLex_init E lc pc = Inl (GrammarError r w)) \<longleftrightarrow>
        (\<exists>(n, x, a) \<in> set (rules pc). \<exists>s \<in> set x. is_terminal E s \<and>
           (\<exists>t w. token_by_name_of (tokens lc) s = Some t
                  \<and> getwidth E (to_regexp t) = Inr w \<and> w \<noteq> (1, 1))))
     \<and> ((\<forall>(n, x, a) \<in> set (rules pc). callback pc a \<noteq> None) \<longrightarrow>
          ((\<exists>r w. Nearley_NoLex_init E lc pc = Inl (GrammarError r w)) \<longleftrightarrow>
             (\<exists>(n, x, a) \<in> set (rules pc). \<exists>s \<in> set x. is_terminal E s \<and>
                (\<exists>t w. token_by_name_of (tokens lc) s = Some t
                       \<and> getwidth E (to_regexp t) = Inr w \<and> w \<noteq> (1, 1)))))
     \<and> (\<not> (\<exists>(n, x, a) \<in> set (rules pc). \<exists>s \<in> set x. is_terminal E s \<and>
             (\<exists>t w. token_by_name_of (tokens lc) s = Some t
                    \<and> getwidth E (to_regexp t) = Inr w \<and> w \<noteq> (1, 1))) \<longrightarrow>
          (\<forall>e. Earley_NoLex_init E lc pc = Inl e \<longrightarrow> (\<exists>x. e = Propagated x))
          \<and> ((\<forall>(n, x, a) \<in> set (rules pc). callback pc a \<noteq> None) \<longrightarrow>
               (\<forall>e. Nearley_NoLex_init E lc pc = Inl e \<longrightarrow> (\<exists>x. e = Propagated x))))"
    (is "(?GE \<longleftrightarrow> ?BAD) \<and> (?ACT \<longrightarrow> (?GN \<longleftrightarrow> ?BAD)) \<and> (\<not> ?BAD \<longrightarrow> ?PE \<and> (?ACT \<longrightarrow> ?PN))")
proof -
  let ?tbn = "token_by_name_of (tokens lc)"
  have e_only: "(\<exists>r w. e = GrammarError r w) \<and> ?BAD \<or> (\<exists>x. e = Propagated x)"
    if "Earley_NoLex_init E lc pc = Inl e" for e
    using Earley_NoLex_init_Inl [OF that] Earley_NoLex_rules_Inl [OF defined]
    by blast
  have n_only: "(\<exists>r w. e = GrammarError r w) \<and> ?BAD \<or> (\<exists>x. e = Propagated x)"
    if "Nearley_NoLex_init E lc pc = Inl e" and ?ACT for e
    using Nearley_NoLex_init_Inl [OF that(1)] Nearley_NoLex_rules_Inl [OF defined that(2)]
    by blast
  have e_bad: ?GE if ?BAD
  proof -
    from that obtain n x a s t w where
      "(n, x, a) \<in> set (rules pc)" "s \<in> set x" "is_terminal E s" "?tbn s = Some t"
      "getwidth E (to_regexp t) = Inr w" "w \<noteq> (1, 1)"
      by blast
    from this Earley_NoLex_rules_bad [of n x a "rules pc" s E ?tbn t w] obtain e where
      e: "comprehension
            (\<lambda>(n, x, a). case Earley_NoLex_prepare_expansion E ?tbn x of
                            Inl e \<Rightarrow> Inl e
                          | Inr syms \<Rightarrow> Inr (n, syms, a)) (rules pc) = Inl e"
      by blast
    from Earley_NoLex_rules_Inl [OF defined e] Earley_NoLex_init_rules_Inl [OF e]
    show ?thesis by blast
  qed
  have n_bad: ?GN if ?BAD and ?ACT
  proof -
    from that(1) obtain n x a s t w where
      "(n, x, a) \<in> set (rules pc)" "s \<in> set x" "is_terminal E s" "?tbn s = Some t"
      "getwidth E (to_regexp t) = Inr w" "w \<noteq> (1, 1)"
      by blast
    from this Nearley_NoLex_rules_bad [of n x a "rules pc" s E ?tbn t w] obtain e where
      e: "comprehension
            (\<lambda>(n, x, a). case Nearley_NoLex_prepare_expansion E ?tbn x of
                            Inl e \<Rightarrow> Inl e
                          | Inr syms \<Rightarrow>
                              (case getattr (callback pc) a of
                                 Inl e \<Rightarrow> Inl e
                               | Inr f \<Rightarrow> Inr \<lparr>rule_name = n, symbols = syms, postprocess = f\<rparr>))
            (rules pc) = Inl e"
      by blast
    from Nearley_NoLex_rules_Inl [OF defined that(2) e] Nearley_NoLex_init_rules_Inl [OF e]
    show ?thesis by blast
  qed
  have "?GE \<longleftrightarrow> ?BAD"
    using e_only e_bad by blast
  moreover have "?ACT \<longrightarrow> (?GN \<longleftrightarrow> ?BAD)"
    using n_only n_bad by blast
  moreover have "\<not> ?BAD \<longrightarrow> ?PE \<and> (?ACT \<longrightarrow> ?PN)"
    using e_only n_only by blast
  ultimately show ?thesis
    by blast
qed


theorem scannerless_width_check_witness:
  "Earley_NoLex_init ex_collab ex_lexer_conf (ex_grammar ''X'')
     = Inr \<lparr>en_token_by_name = token_by_name_of (tokens ex_lexer_conf),
            en_parser = \<lparr>rules = [(''s'', [Tuple [ReMatch ''a'']], ''f'')],
                          callback = [''f'' \<mapsto> 1], start = ''s''\<rparr>\<rparr>
   \<and> Earley_NoLex_init ex_collab ex_lexer_conf (ex_grammar ''V'') = Inl (GrammarError [] (0, 0))
   \<and> Earley_NoLex_init ex_collab ex_lexer_conf (ex_grammar ''Y'')
       = Inl (GrammarError ''ab'' (2, 2))
   \<and> Earley_NoLex_init ex_collab ex_lexer_conf (ex_grammar ''W'')
       = Inl (GrammarError ''a*'' (0, 4294967295))
   \<and> Nearley_NoLex_init ex_collab ex_lexer_conf (ex_grammar ''X'')
       = Inr \<lparr>nn_token_by_name = token_by_name_of (tokens ex_lexer_conf),
              nn_parser = ([\<lparr>rule_name = ''s'', symbols = [Tuple [Str ''X'', RePattern ''a'']],
                             postprocess = 1\<rparr>], ''s'')\<rparr>
   \<and> Nearley_NoLex_init ex_collab ex_lexer_conf (ex_grammar ''Y'')
       = Inl (GrammarError ''ab'' (2, 2))
   \<and> (\<exists>r w. Earley_NoLex_init ex_collab ex_lexer_conf (ex_grammar ''Y'')
              = Inl (GrammarError r w))
   \<and> (\<exists>r w. Nearley_NoLex_init ex_collab ex_lexer_conf (ex_grammar ''Y'')
              = Inl (GrammarError r w))
   \<and> \<not> (\<exists>r w. Earley_NoLex_init ex_collab ex_lexer_conf (ex_grammar ''X'')
                = Inl (GrammarError r w))"
proof -
  have tbn: "token_by_name_of (tokens ex_lexer_conf) =
               [''U'' \<mapsto> \<lparr>name = ''U'', to_regexp = ''(?<=a+)b''\<rparr>,
                ''V'' \<mapsto> \<lparr>name = ''V'', to_regexp = []\<rparr>,
                ''W'' \<mapsto> \<lparr>name = ''W'', to_regexp = ''a*''\<rparr>,
                ''X'' \<mapsto> \<lparr>name = ''X'', to_regexp = ''a''\<rparr>,
                ''Y'' \<mapsto> \<lparr>name = ''Y'', to_regexp = ''ab''\<rparr>]"
    by (simp add: token_by_name_of_def ex_lexer_conf_def)
  have defined_X:
    "\<forall>(n, x, a) \<in> set (rules (ex_grammar ''X'')). \<forall>s \<in> set x. is_terminal ex_collab s \<longrightarrow>
       (\<exists>t w. token_by_name_of (tokens ex_lexer_conf) s = Some t
              \<and> getwidth ex_collab (to_regexp t) = Inr w
              \<and> (w = (1, 1) \<longrightarrow> re_compile ex_collab (to_regexp t) = Inr ()))"
    by (simp add: tbn ex_grammar_def ex_collab_def)
  have defined_Y:
    "\<forall>(n, x, a) \<in> set (rules (ex_grammar ''Y'')). \<forall>s \<in> set x. is_terminal ex_collab s \<longrightarrow>
       (\<exists>t w. token_by_name_of (tokens ex_lexer_conf) s = Some t
              \<and> getwidth ex_collab (to_regexp t) = Inr w
              \<and> (w = (1, 1) \<longrightarrow> re_compile ex_collab (to_regexp t) = Inr ()))"
    by (simp add: tbn ex_grammar_def ex_collab_def)
  have actions_Y: "\<forall>(n, x, a) \<in> set (rules (ex_grammar ''Y'')). callback (ex_grammar ''Y'') a \<noteq> None"
    by (simp add: ex_grammar_def)
  have bad_Y:
    "\<exists>(n, x, a) \<in> set (rules (ex_grammar ''Y'')). \<exists>s \<in> set x. is_terminal ex_collab s \<and>
       (\<exists>t w. token_by_name_of (tokens ex_lexer_conf) s = Some t
              \<and> getwidth ex_collab (to_regexp t) = Inr w \<and> w \<noteq> (1, 1))"
    by (simp add: tbn ex_grammar_def ex_collab_def)
  have good_X:
    "\<not> (\<exists>(n, x, a) \<in> set (rules (ex_grammar ''X'')). \<exists>s \<in> set x. is_terminal ex_collab s \<and>
       (\<exists>t w. token_by_name_of (tokens ex_lexer_conf) s = Some t
              \<and> getwidth ex_collab (to_regexp t) = Inr w \<and> w \<noteq> (1, 1)))"
    by (simp add: tbn ex_grammar_def ex_collab_def)
  have eval:
    "Earley_NoLex_init ex_collab ex_lexer_conf (ex_grammar ''X'')
       = Inr \<lparr>en_token_by_name = token_by_name_of (tokens ex_lexer_conf),
              en_parser = \<lparr>rules = [(''s'', [Tuple [ReMatch ''a'']], ''f'')],
                            callback = [''f'' \<mapsto> 1], start = ''s''\<rparr>\<rparr>"
    "Earley_NoLex_init ex_collab ex_lexer_conf (ex_grammar ''V'') = Inl (GrammarError [] (0, 0))"
    "Earley_NoLex_init ex_collab ex_lexer_conf (ex_grammar ''Y'')
       = Inl (GrammarError ''ab'' (2, 2))"
    "Earley_NoLex_init ex_collab ex_lexer_conf (ex_grammar ''W'')
       = Inl (GrammarError ''a*'' (0, 4294967295))"
    "Nearley_NoLex_init ex_collab ex_lexer_conf (ex_grammar ''X'')
       = Inr \<lparr>nn_token_by_name = token_by_name_of (tokens ex_lexer_conf),
              nn_parser = ([\<lparr>rule_name = ''s'', symbols = [Tuple [Str ''X'', RePattern ''a'']],
                             postprocess = 1\<rparr>], ''s'')\<rparr>"
    "Nearley_NoLex_init ex_collab ex_lexer_conf (ex_grammar ''Y'')
       = Inl (GrammarError ''ab'' (2, 2))"
    by (simp_all add: Earley_NoLex_init_def Nearley_NoLex_init_def
          Earley_NoLex_prepare_expansion_def Nearley_NoLex_prepare_expansion_def
          compiled_regexp_def getattr_def propagate_def tbn ex_grammar_def ex_collab_def)
  from scannerless_width_check [OF defined_Y] scannerless_width_check [OF defined_X]
       actions_Y bad_Y good_X eval
  show ?thesis
    by blast
qed

text \<open>
  The claim as written fails in both classes. In \<open>Nearley_NoLex\<close> a rule that names an
  action the callback object lacks ends construction with an attribute error before the
  terminal \<open>Y\<close> of width (2, 2) in the next rule is reached; in \<open>Earley_NoLex\<close> the
  terminal \<open>Z\<close>, which the token table does not define, ends it with a key error before
  \<open>Y\<close> in the same right-hand side is reached; and the terminal \<open>U\<close>, which passes the
  width check and which \<open>re.compile\<close> rejects, ends it with the compiler's exception
  before \<open>Y\<close> is reached.
\<close>

theorem scannerless_width_counterexample:
  "(''t'', [''Y''], ''g'') \<in> set (rules ex_parser_conf_action)
   \<and> is_terminal ex_collab ''Y''
   \<and> token_by_name_of (tokens ex_lexer_conf) ''Y'' = Some \<lparr>name = ''Y'', to_regexp = ''ab''\<rparr>
   \<and> getwidth ex_collab ''ab'' = Inr (2, 2)
   \<and> Nearley_NoLex_init ex_collab ex_lexer_conf ex_parser_conf_action
       = Inl (AttributeError ''missing'')
   \<and> (''s'', [''Z'', ''Y''], ''f'') \<in> set (rules ex_parser_conf_undefined)
   \<and> Earley_NoLex_init ex_collab ex_lexer_conf ex_parser_conf_undefined = Inl (KeyError ''Z'')
   \<and> (''s'', [''U'', ''Y''], ''f'') \<in> set (rules ex_parser_conf_lookbehind)
   \<and> token_by_name_of (tokens ex_lexer_conf) ''U''
       = Some \<lparr>name = ''U'', to_regexp = ''(?<=a+)b''\<rparr>
   \<and> getwidth ex_collab ''(?<=a+)b'' = Inr (1, 1)
   \<and> Earley_NoLex_init ex_collab ex_lexer_conf ex_parser_conf_lookbehind
       = Inl (Propagated ''look-behind requires fixed-width pattern'')"
  by (simp add: Earley_NoLex_init_def Nearley_NoLex_init_def
        Earley_NoLex_prepare_expansion_def Nearley_NoLex_prepare_expansion_def
        compiled_regexp_def getattr_def propagate_def token_by_name_of_def ex_lexer_conf_def
        ex_parser_conf_action_def ex_parser_conf_undefined_def ex_parser_conf_lookbehind_def
        ex_collab_def)

text \<open>
  C9. The scannerless classes read nothing of the lexer configuration but its token
  table: two lexer configurations with the same token table, whatever their ignore lists
  and post-lex objects, give the same outcome of construction and hence the same outcome
  of every \<open>parse\<close>; and \<open>parse\<close> hands the raw text to the chart engine.
\<close>

theorem scannerless_reads_tokens_only:
  assumes "tokens lc1 = tokens lc2"
  shows "Nearley_NoLex_init E lc1 pc = Nearley_NoLex_init E lc2 pc
         \<and> Earley_NoLex_init E lc1 pc = Earley_NoLex_init E lc2 pc
         \<and> map_sum id (\<lambda>self. fst (Nearley_NoLex_parse E self text)) (Nearley_NoLex_init E lc1 pc)
             = map_sum id (\<lambda>self. fst (Nearley_NoLex_parse E self text))
                 (Nearley_NoLex_init E lc2 pc)
         \<and> map_sum id (\<lambda>self. fst (Earley_NoLex_parse E self text)) (Earley_NoLex_init E lc1 pc)
             = map_sum id (\<lambda>self. fst (Earley_NoLex_parse E self text))
                 (Earley_NoLex_init E lc2 pc)
         \<and> fst (Nearley_NoLex_parse E nn text)
             = (case nearley_parse E (nn_parser nn) (Text text) of
                  Inl x \<Rightarrow> Inl (Propagated x)
                | Inr res \<Rightarrow> assert_single res)
         \<and> fst (Earley_NoLex_parse E en text)
             = (case earley_parse E (en_parser en) (Text text) of
                  Inl x \<Rightarrow> Inl (Propagated x)
                | Inr res \<Rightarrow> assert_single res)"
proof -
  have n: "Nearley_NoLex_init E lc1 pc = Nearley_NoLex_init E lc2 pc"
    using assms by (simp add: Nearley_NoLex_init_def)
  have e: "Earley_NoLex_init E lc1 pc = Earley_NoLex_init E lc2 pc"
    using assms by (simp add: Earley_NoLex_init_def)
  have pn: "fst (Nearley_NoLex_parse E nn text)
             = (case nearley_parse E (nn_parser nn) (Text text) of
                  Inl x \<Rightarrow> Inl (Propagated x)
                | Inr res \<Rightarrow> assert_single res)"
    by (simp add: Nearley_NoLex_parse_def propagate_def split: sum.splits)
  have pe: "fst (Earley_NoLex_parse E en text)
             = (case earley_parse E (en_parser en) (Text text) of
                  Inl x \<Rightarrow> Inl (Propagated x)
                | Inr res \<Rightarrow> assert_single res)"
    by (simp add: Earley_NoLex_parse_def propagate_def split: sum.splits)
  from n e pn pe show ?thesis
    by simp
qed

theorem scannerless_reads_tokens_only_witness:
  "tokens ex_lexer_conf = tokens ex_lexer_conf_postlex
   \<and> ignore ex_lexer_conf \<noteq> ignore ex_lexer_conf_postlex
   \<and> postlex ex_lexer_conf = None
   \<and> postlex ex_lexer_conf_postlex = Some ex_postlex
   \<and> Earley_NoLex_init ex_collab ex_lexer_conf (ex_grammar ''X'')
       = Earley_NoLex_init ex_collab ex_lexer_conf_postlex (ex_grammar ''X'')
   \<and> Nearley_NoLex_init ex_collab ex_lexer_conf (ex_grammar ''X'')
       = Nearley_NoLex_init ex_collab ex_lexer_conf_postlex (ex_grammar ''X'')
   \<and> map_sum id (\<lambda>self. fst (Earley_NoLex_parse ex_collab self ''a''))
        (Earley_NoLex_init ex_collab ex_lexer_conf_postlex (ex_grammar ''X''))
       = Inr (Inr [''a''])"
proof -
  have same: "tokens ex_lexer_conf = tokens ex_lexer_conf_postlex"
    by (simp add: ex_lexer_conf_postlex_def)
  have run: "map_sum id (\<lambda>self. fst (Earley_NoLex_parse ex_collab self ''a''))
               (Earley_NoLex_init ex_collab ex_lexer_conf (ex_grammar ''X''))
             = Inr (Inr [''a''])"
    by (simp add: Earley_NoLex_init_def Earley_NoLex_prepare_expansion_def compiled_regexp_def
          Earley_NoLex_parse_def assert_single_def propagate_def token_by_name_of_def
          ex_lexer_conf_def ex_grammar_def ex_collab_def)
  from scannerless_reads_tokens_only [OF same, of ex_collab "ex_grammar ''X''" "''a''"] run
  show ?thesis
    by (simp add: ex_lexer_conf_postlex_def ex_lexer_conf_def)
qed

lemma comprehension_Inr_maps:
  assumes "comprehension f xs = Inr ys"
      and "\<And>x y. x \<in> set xs \<Longrightarrow> f x = Inr y \<Longrightarrow> h y = g x"
  shows "map h ys = map g xs"
  using assms
proof (induction xs arbitrary: ys)
  case Nil
  then show ?case by simp
next
  case (Cons x xs)
  from Cons.prems(1) obtain y ys' where
    y: "f x = Inr y" and ys': "comprehension f xs = Inr ys'" and ys: "ys = y # ys'"
    by (auto split: sum.splits)
  from Cons.prems(2) y have "h y = g x"
    by simp
  moreover from Cons.IH [OF ys'] Cons.prems(2) have "map h ys' = map g xs"
    by simp
  ultimately show ?case
    using ys by simp
qed

lemma getattr_None: "cb a = None \<Longrightarrow> getattr cb a = Inl (AttributeError a)"
  by (simp add: getattr_def)

lemma getattr_Inr: "getattr cb a = Inr f \<Longrightarrow> cb a = Some f"
  by (auto simp add: getattr_def split: option.splits)

lemma Nearley_init_missing_action:
  assumes "(n, x, a) \<in> set (rules pc)" and "callback pc a = None"
  shows "\<exists>e. Nearley_init E lc pc = Inl e"
proof (cases "WithLexer_init E lc")
  case (Inl e)
  then show ?thesis
    by (simp add: Nearley_init_def)
next
  case (Inr base)
  let ?f = "\<lambda>(n, x, a).
              case getattr (callback pc) a of
                Inl e \<Rightarrow> Inl e
              | Inr f \<Rightarrow> Inr \<lparr>rule_name = n, symbols = Nearley_prepare_expansion E x,
                               postprocess = f\<rparr>"
  from assms(2) have "?f (n, x, a) = Inl (AttributeError a)"
    by (simp add: getattr_None)
  with assms(1) obtain e where "comprehension ?f (rules pc) = Inl e"
    by (blast dest: comprehension_fails_elem)
  with Inr show ?thesis
    by (simp add: Nearley_init_def)
qed

lemma Nearley_NoLex_init_missing_action:
  assumes "(n, x, a) \<in> set (rules pc)" and "callback pc a = None"
  shows "\<exists>e. Nearley_NoLex_init E lc pc = Inl e"
proof -
  let ?f = "\<lambda>(n, x, a).
              case Nearley_NoLex_prepare_expansion E (token_by_name_of (tokens lc)) x of
                Inl e \<Rightarrow> Inl e
              | Inr syms \<Rightarrow>
                  (case getattr (callback pc) a of
                     Inl e \<Rightarrow> Inl e
                   | Inr f \<Rightarrow> Inr \<lparr>rule_name = n, symbols = syms, postprocess = f\<rparr>)"
  from assms(2) have "\<exists>e. ?f (n, x, a) = Inl e"
    by (simp add: getattr_None split: sum.splits)
  with assms(1) obtain e where "comprehension ?f (rules pc) = Inl e"
    by (blast dest: comprehension_fails_elem)
  then show ?thesis
    by (simp add: Nearley_NoLex_init_def Let_def)
qed

lemma Nearley_init_resolved:
  assumes "Nearley_init E lc pc = Inr nl"
  shows "\<exists>rs. nearley_Parser E rs (start pc) = Inr (nearley_parser nl)
              \<and> map (\<lambda>r. Some (postprocess r)) rs = map (\<lambda>(n, x, a). callback pc a) (rules pc)"
proof -
  let ?f = "\<lambda>(n, x, a).
              case getattr (callback pc) a of
                Inl e \<Rightarrow> Inl e
              | Inr f \<Rightarrow> Inr \<lparr>rule_name = n, symbols = Nearley_prepare_expansion E x,
                               postprocess = f\<rparr>"
  from assms obtain rs where rs: "comprehension ?f (rules pc) = Inr rs"
    and p: "nearley_Parser E rs (start pc) = Inr (nearley_parser nl)"
    by (auto simp add: Nearley_init_def propagate_def split: sum.splits)
  have "map (\<lambda>r. Some (postprocess r)) rs = map (\<lambda>(n, x, a). callback pc a) (rules pc)"
    using rs
  proof (rule comprehension_Inr_maps)
    fix r y
    assume "?f r = Inr y"
    then show "Some (postprocess y) = (case r of (n, x, a) \<Rightarrow> callback pc a)"
      by (cases r) (auto dest: getattr_Inr split: sum.splits)
  qed
  with p show ?thesis
    by blast
qed

lemma Nearley_NoLex_init_resolved:
  assumes "Nearley_NoLex_init E lc pc = Inr nn"
  shows "\<exists>rs. nearley_Parser E rs (start pc) = Inr (nn_parser nn)
              \<and> map (\<lambda>r. Some (postprocess r)) rs = map (\<lambda>(n, x, a). callback pc a) (rules pc)"
proof -
  let ?f = "\<lambda>(n, x, a).
              case Nearley_NoLex_prepare_expansion E (token_by_name_of (tokens lc)) x of
                Inl e \<Rightarrow> Inl e
              | Inr syms \<Rightarrow>
                  (case getattr (callback pc) a of
                     Inl e \<Rightarrow> Inl e
                   | Inr f \<Rightarrow> Inr \<lparr>rule_name = n, symbols = syms, postprocess = f\<rparr>)"
  from assms obtain rs where rs: "comprehension ?f (rules pc) = Inr rs"
    and p: "nearley_Parser E rs (start pc) = Inr (nn_parser nn)"
    by (auto simp add: Nearley_NoLex_init_def Let_def propagate_def split: sum.splits)
  have "map (\<lambda>r. Some (postprocess r)) rs = map (\<lambda>(n, x, a). callback pc a) (rules pc)"
    using rs
  proof (rule comprehension_Inr_maps)
    fix r y
    assume "?f r = Inr y"
    then show "Some (postprocess y) = (case r of (n, x, a) \<Rightarrow> callback pc a)"
      by (cases r) (auto dest: getattr_Inr split: sum.splits)
  qed
  with p show ?thesis
    by blast
qed

lemma Earley_init_unresolved:
  assumes "Earley_init E lc pc = Inr el"
  shows "\<exists>rs. earley_Parser E \<lparr>rules = rs, callback = callback pc, start = start pc\<rparr>
                = Inr (earley_parser el)
              \<and> map (\<lambda>(n, x, a). (n, a)) rs = map (\<lambda>(n, x, a). (n, a)) (rules pc)"
proof -
  let ?rs = "map (\<lambda>(n, x, a). (n, Earley_prepare_expansion E x, a)) (rules pc)"
  from assms have "earley_Parser E \<lparr>rules = ?rs, callback = callback pc, start = start pc\<rparr>
                     = Inr (earley_parser el)"
    by (auto simp add: Earley_init_def Let_def propagate_def split: sum.splits)
  moreover have "map (\<lambda>(n, x, a). (n, a)) ?rs = map (\<lambda>(n, x, a). (n, a)) (rules pc)"
    by (simp add: comp_def split_beta)
  ultimately show ?thesis
    by blast
qed

lemma Earley_NoLex_init_unresolved:
  assumes "Earley_NoLex_init E lc pc = Inr en"
  shows "\<exists>rs. earley_Parser E \<lparr>rules = rs, callback = callback pc, start = start pc\<rparr>
                = Inr (en_parser en)
              \<and> map (\<lambda>(n, x, a). (n, a)) rs = map (\<lambda>(n, x, a). (n, a)) (rules pc)"
proof -
  let ?f = "\<lambda>(n, x, a).
              case Earley_NoLex_prepare_expansion E (token_by_name_of (tokens lc)) x of
                Inl e \<Rightarrow> Inl e
              | Inr syms \<Rightarrow> Inr (n, syms, a)"
  from assms obtain rs where rs: "comprehension ?f (rules pc) = Inr rs"
    and p: "earley_Parser E \<lparr>rules = rs, callback = callback pc, start = start pc\<rparr>
              = Inr (en_parser en)"
    by (auto simp add: Earley_NoLex_init_def Let_def propagate_def split: sum.splits)
  have "map (\<lambda>(n, x, a). (n, a)) rs = map (\<lambda>(n, x, a). (n, a)) (rules pc)"
    using rs
  proof (rule comprehension_Inr_maps)
    fix r y
    assume "?f r = Inr y"
    then show "(case y of (n, x, a) \<Rightarrow> (n, a)) = (case r of (n, x, a) \<Rightarrow> (n, a))"
      by (cases r) (auto split: sum.splits)
  qed
  with p show ?thesis
    by blast
qed


lemma Earley_init_no_AttributeError: "Earley_init E lc pc \<noteq> Inl (AttributeError a)"
  by (auto simp add: Earley_init_def WithLexer_init_def Let_def propagate_def split: sum.splits)

lemma compiled_regexp_no_AttributeError: "compiled_regexp E tbn s \<noteq> Inl (AttributeError a)"
  by (auto simp add: compiled_regexp_def Let_def propagate_def split: option.splits sum.splits)

lemma Earley_NoLex_init_no_AttributeError:
  "Earley_NoLex_init E lc pc \<noteq> Inl (AttributeError a)"
proof
  assume "Earley_NoLex_init E lc pc = Inl (AttributeError a)"
  from Earley_NoLex_init_Inl [OF this] have
    "comprehension
       (\<lambda>(n, x, a). case Earley_NoLex_prepare_expansion E (token_by_name_of (tokens lc)) x of
                       Inl e \<Rightarrow> Inl e
                     | Inr syms \<Rightarrow> Inr (n, syms, a)) (rules pc) = Inl (AttributeError a)"
    by simp
  from comprehension_Inl_elem [OF this] obtain x where
    "Earley_NoLex_prepare_expansion E (token_by_name_of (tokens lc)) x = Inl (AttributeError a)"
    by (auto split: sum.splits)
  then obtain s where
    "(if is_terminal E s then
        (case compiled_regexp E (token_by_name_of (tokens lc)) s of
           Inl e \<Rightarrow> Inl e
         | Inr regexp \<Rightarrow> Inr (Tuple [ReMatch regexp]))
      else Inr (Name s)) = Inl (AttributeError a)"
    unfolding Earley_NoLex_prepare_expansion_def
    by (blast dest: comprehension_Inl_elem)
  then show False
    using compiled_regexp_no_AttributeError [of E "token_by_name_of (tokens lc)" s a]
    by (auto split: if_splits sum.splits)
qed

text \<open>
  C10. If some rule names an action that the callback object does not provide, then
  construction of \<open>Nearley\<close> and of \<open>Nearley_NoLex\<close> fails. When their construction succeeds,
  the rules given to the nearley engine carry, rule by rule, the attribute of the callback
  object that the rule's action identifier names. \<open>Earley\<close> and \<open>Earley_NoLex\<close> look no
  action up: the rules they give to the earley engine carry the names and the action
  identifiers of the configuration's rules, with the callback object itself, and their
  construction never fails with an attribute error.
\<close>

theorem action_resolution:
  "((\<exists>(n, x, a) \<in> set (rules pc). callback pc a = None) \<longrightarrow>
      (\<exists>e. Nearley_init E lc pc = Inl e) \<and> (\<exists>e. Nearley_NoLex_init E lc pc = Inl e))
   \<and> (Nearley_init E lc pc = Inr nl \<longrightarrow>
        (\<exists>rs. nearley_Parser E rs (start pc) = Inr (nearley_parser nl)
              \<and> map (\<lambda>r. Some (postprocess r)) rs
                  = map (\<lambda>(n, x, a). callback pc a) (rules pc)))
   \<and> (Nearley_NoLex_init E lc pc = Inr nn \<longrightarrow>
        (\<exists>rs. nearley_Parser E rs (start pc) = Inr (nn_parser nn)
              \<and> map (\<lambda>r. Some (postprocess r)) rs
                  = map (\<lambda>(n, x, a). callback pc a) (rules pc)))
   \<and> (Earley_init E lc pc = Inr el \<longrightarrow>
        (\<exists>rs. earley_Parser E \<lparr>rules = rs, callback = callback pc, start = start pc\<rparr>
                = Inr (earley_parser el)
              \<and> map (\<lambda>(n, x, a). (n, a)) rs = map (\<lambda>(n, x, a). (n, a)) (rules pc)))
   \<and> (Earley_NoLex_init E lc pc = Inr en \<longrightarrow>
        (\<exists>rs. earley_Parser E \<lparr>rules = rs, callback = callback pc, start = start pc\<rparr>
                = Inr (en_parser en)
              \<and> map (\<lambda>(n, x, a). (n, a)) rs = map (\<lambda>(n, x, a). (n, a)) (rules pc)))
   \<and> (\<forall>a. Earley_init E lc pc \<noteq> Inl (AttributeError a))
   \<and> (\<forall>a. Earley_NoLex_init E lc pc \<noteq> Inl (AttributeError a))"
proof -
  have "(\<exists>e. Nearley_init E lc pc = Inl e) \<and> (\<exists>e. Nearley_NoLex_init E lc pc = Inl e)"
    if "\<exists>(n, x, a) \<in> set (rules pc). callback pc a = None"
  proof -
    from that obtain n x a where "(n, x, a) \<in> set (rules pc)" "callback pc a = None"
      by blast
    then show ?thesis
      using Nearley_init_missing_action [of n x a pc E lc]
            Nearley_NoLex_init_missing_action [of n x a pc E lc]
      by blast
  qed
  then show ?thesis
    using Nearley_init_resolved [of E lc pc nl] Nearley_NoLex_init_resolved [of E lc pc nn]
          Earley_init_unresolved [of E lc pc el] Earley_NoLex_init_unresolved [of E lc pc en]
          Earley_init_no_AttributeError [of E lc pc]
          Earley_NoLex_init_no_AttributeError [of E lc pc]
    by blast
qed

theorem action_resolution_witness:
  "(''s'', [''t''], ''missing'') \<in> set (rules ex_parser_conf_action)
   \<and> callback ex_parser_conf_action ''missing'' = None
   \<and> Nearley_init ex_collab ex_lexer_conf ex_parser_conf_action
       = (Inl (AttributeError ''missing'')
          :: error + (string list, TokenDef list \<times> string list, nat NearleyRule list \<times> string)
                     Nearley)
   \<and> Nearley_NoLex_init ex_collab ex_lexer_conf ex_parser_conf_action
       = Inl (AttributeError ''missing'')
   \<and> Earley_init ex_collab ex_lexer_conf ex_parser_conf_action
       = Inr \<lparr>lexer_conf = ex_lexer_conf, lexer = (tokens ex_lexer_conf, ignore ex_lexer_conf),
              earley_parser =
                \<lparr>rules = [(''s'', [Name ''t''], ''missing''), (''t'', [Tuple [Str ''Y'']], ''g'')],
                 callback = callback ex_parser_conf_action, start = ''s''\<rparr>\<rparr>
   \<and> Nearley_init ex_collab ex_lexer_conf (ex_grammar ''X'')
       = Inr \<lparr>lexer_conf = ex_lexer_conf, lexer = (tokens ex_lexer_conf, ignore ex_lexer_conf),
              nearley_parser =
                ([\<lparr>rule_name = ''s'', symbols = [Tuple [Str ''X'', NoneObj]],
                   postprocess = 1\<rparr>], ''s'')\<rparr>
   \<and> Nearley_NoLex_init ex_collab ex_lexer_conf (ex_grammar ''X'')
       = Inr \<lparr>nn_token_by_name = token_by_name_of (tokens ex_lexer_conf),
              nn_parser = ([\<lparr>rule_name = ''s'', symbols = [Tuple [Str ''X'', RePattern ''a'']],
                             postprocess = 1\<rparr>], ''s'')\<rparr>
   \<and> Earley_NoLex_init ex_collab ex_lexer_conf (ex_grammar ''X'')
       = Inr \<lparr>en_token_by_name = token_by_name_of (tokens ex_lexer_conf),
              en_parser = \<lparr>rules = [(''s'', [Tuple [ReMatch ''a'']], ''f'')],
                            callback = [''f'' \<mapsto> 1], start = ''s''\<rparr>\<rparr>"
proof -
  have tbn: "token_by_name_of (tokens ex_lexer_conf) =
               [''U'' \<mapsto> \<lparr>name = ''U'', to_regexp = ''(?<=a+)b''\<rparr>,
                ''V'' \<mapsto> \<lparr>name = ''V'', to_regexp = []\<rparr>,
                ''W'' \<mapsto> \<lparr>name = ''W'', to_regexp = ''a*''\<rparr>,
                ''X'' \<mapsto> \<lparr>name = ''X'', to_regexp = ''a''\<rparr>,
                ''Y'' \<mapsto> \<lparr>name = ''Y'', to_regexp = ''ab''\<rparr>]"
    by (simp add: token_by_name_of_def ex_lexer_conf_def)
  have missing: "\<exists>(n, x, a) \<in> set (rules ex_parser_conf_action).
                   callback ex_parser_conf_action a = None"
    by (simp add: ex_parser_conf_action_def)
  from action_resolution [of ex_parser_conf_action ex_collab ex_lexer_conf] missing
       action_resolution [of "ex_grammar ''X''" ex_collab ex_lexer_conf]
  show ?thesis
    by (simp add: Nearley_init_def Nearley_NoLex_init_def Earley_init_def Earley_NoLex_init_def
          WithLexer_init_def Nearley_prepare_expansion_def Earley_prepare_expansion_def
          Nearley_NoLex_prepare_expansion_def Earley_NoLex_prepare_expansion_def
          compiled_regexp_def getattr_def propagate_def tbn ex_grammar_def
          ex_parser_conf_action_def ex_collab_def)
qed

lemma LALR_parse_snd: "snd (LALR_parse E self text) = self"
  by (simp add: LALR_parse_def split: sum.splits)

lemma Nearley_parse_snd: "snd (Nearley_parse E self text) = self"
  by (simp add: Nearley_parse_def split: sum.splits)

lemma Earley_parse_snd: "snd (Earley_parse E self text) = self"
  by (simp add: Earley_parse_def split: sum.splits)

lemma Nearley_NoLex_parse_snd: "snd (Nearley_NoLex_parse E self text) = self"
  by (simp add: Nearley_NoLex_parse_def split: sum.splits)

lemma Earley_NoLex_parse_snd: "snd (Earley_NoLex_parse E self text) = self"
  by (simp add: Earley_NoLex_parse_def split: sum.splits)








text \<open>
  C8. Whatever its outcome, \<open>parse\<close> leaves the lexer configuration and the parser
  configuration that the instance holds as they were.
\<close>

theorem parse_keeps_configurations:
  "held_lexer_conf (snd (parse E f text)) = held_lexer_conf f
   \<and> held_parser_conf (snd (parse E f text)) = held_parser_conf f"
  by (cases f)
     (simp_all add: LALR_parse_snd Nearley_parse_snd Earley_parse_snd Nearley_NoLex_parse_snd
        Earley_NoLex_parse_snd LALR_ContextualLexer_parse_snd)

theorem parse_keeps_configurations_witness:
  "fst (parse ex_collab
          (Inst_Earley \<lparr>lexer_conf = ex_lexer_conf, lexer = ([], []),
                        earley_parser = \<lparr>rules = [], callback = Map.empty, start = []\<rparr>\<rparr>) ''ab'')
     = Inl (AssertionError ''Ambiguious Parse! Not handled yet'')
   \<and> held_lexer_conf
        (snd (parse ex_collab
                (Inst_Earley \<lparr>lexer_conf = ex_lexer_conf, lexer = ([], []),
                              earley_parser = \<lparr>rules = [], callback = Map.empty, start = []\<rparr>\<rparr>)
                ''ab''))
       = Some ex_lexer_conf
   \<and> fst (parse ex_collab (Inst_LALR_ContextualLexer ex_contextual) ''ab'') = Inr [''b'', ''a'']
   \<and> held_lexer_conf (snd (parse ex_collab (Inst_LALR_ContextualLexer ex_contextual) ''ab''))
       = Some ex_lexer_conf_postlex
   \<and> held_parser_conf (snd (parse ex_collab (Inst_LALR_ContextualLexer ex_contextual) ''ab''))
       = Some ex_parser_conf"
proof -
  have raised: "fst (parse ex_collab
          (Inst_Earley \<lparr>lexer_conf = ex_lexer_conf, lexer = ([], []),
                        earley_parser = \<lparr>rules = [], callback = Map.empty, start = []\<rparr>\<rparr>) ''ab'')
     = Inl (AssertionError ''Ambiguious Parse! Not handled yet'')"
    by (simp add: Earley_parse_def WithLexer_lex_def assert_single_def propagate_def
          ex_lexer_conf_def ex_collab_def)
  have returned: "fst (parse ex_collab (Inst_LALR_ContextualLexer ex_contextual) ''ab'')
                    = Inr [''b'', ''a'']"
    by (simp add: LALR_ContextualLexer_parse_fst propagate_def ex_contextual_def
          ex_lexer_conf_postlex_def ex_postlex_def ex_collab_def)
  from parse_keeps_configurations
         [of ex_collab "Inst_Earley \<lparr>lexer_conf = ex_lexer_conf, lexer = ([], []),
                        earley_parser = \<lparr>rules = [], callback = Map.empty, start = []\<rparr>\<rparr>" "''ab''"]
       parse_keeps_configurations [of ex_collab "Inst_LALR_ContextualLexer ex_contextual" "''ab''"]
       raised returned
  show ?thesis
    by (simp add: ex_contextual_def)
qed

end
